theory Spec2Isabelle
  imports Main "HOL-Library.AList"
begin

section \<open>Python values\<close>

text \<open>
  Text is a \<^typ>\<open>string\<close>: the UTF-8 bytes of the Python \<open>str\<close>. An exception is a
  value of \<open>exn\<close>; a function that can raise returns \<open>exn + 'a\<close>, with \<open>Inl\<close> for the
  exception that leaves it. \<open>Failure\<close> is an exception of a collaborator, with its
  message.
\<close>

datatype exn = NameError | IndexError | OverflowError | Failure string

text \<open>Sequencing of calls that may raise: the first exception ends the computation.\<close>

definition and_then :: "exn + 'a \<Rightarrow> ('a \<Rightarrow> exn + 'b) \<Rightarrow> exn + 'b" where
  "and_then m f = (case m of Inl e \<Rightarrow> Inl e | Inr x \<Rightarrow> f x)"

text \<open>The decimal digit of a number below ten (of its last digit, for a larger one).\<close>

definition digit_char :: "nat \<Rightarrow> char" where
  "digit_char n = ''0123456789'' ! (n mod 10)"

text \<open>\<open>'%02d'\<close> and \<open>'%04d'\<close>.\<close>

definition pad2 :: "nat \<Rightarrow> string" where
  "pad2 n = [digit_char (n div 10), digit_char n]"

definition pad4 :: "nat \<Rightarrow> string" where
  "pad4 n = [digit_char (n div 1000), digit_char (n div 100), digit_char (n div 10), digit_char n]"

text \<open>\<open>sep.join(parts)\<close>.\<close>

fun join :: "string \<Rightarrow> string list \<Rightarrow> string" where
  "join sep [] = []"
| "join sep [x] = x"
| "join sep (x # y # ys) = x @ sep @ join sep (y # ys)"

text \<open>\<open>s.replace('Z', '+00:00')\<close>: every Z of the text, not only a final one.\<close>

definition replace_Z :: "string \<Rightarrow> string" where
  "replace_Z s = concat (map (\<lambda>c. if c = CHR ''Z'' then ''+00:00'' else [c]) s)"

section \<open>Timestamps\<close>

text \<open>
  A \<open>datetime\<close> of the standard library: the calendar fields and, for an aware value,
  the offset from UTC in microseconds.
\<close>

record datetime =
  dt_year :: nat
  dt_month :: nat
  dt_day :: nat
  dt_hour :: nat
  dt_minute :: nat
  dt_second :: nat
  dt_microsecond :: nat
  dt_utcoffset :: "int option"

definition is_leap :: "nat \<Rightarrow> bool" where
  "is_leap y = (y mod 4 = 0 \<and> (y mod 100 \<noteq> 0 \<or> y mod 400 = 0))"

definition days_in_month :: "nat \<Rightarrow> nat \<Rightarrow> nat" where
  "days_in_month y m =
     (if m = 2 then (if is_leap y then 29 else 28)
      else if m = 4 \<or> m = 6 \<or> m = 9 \<or> m = 11 then 30 else 31)"

text \<open>\<open>d.strftime("%Y-%m-%d")\<close>: the date alone, the year on four digits.\<close>

definition strftime_ymd :: "datetime \<Rightarrow> string" where
  "strftime_ymd d = pad4 (dt_year d) @ ''-'' @ pad2 (dt_month d) @ ''-'' @ pad2 (dt_day d)"

text \<open>
  \<open>d - timedelta(days=1)\<close>: the day before at the same time of day and offset;
  OverflowError when there is no such day (the first day of year 1).
\<close>

definition minus_one_day :: "datetime \<Rightarrow> exn + datetime" where
  "minus_one_day d =
     (if 1 < dt_day d then Inr (d\<lparr>dt_day := dt_day d - 1\<rparr>)
      else if 1 < dt_month d
        then Inr (d\<lparr>dt_month := dt_month d - 1,
                     dt_day := days_in_month (dt_year d) (dt_month d - 1)\<rparr>)
      else if 1 < dt_year d
        then Inr (d\<lparr>dt_year := dt_year d - 1, dt_month := 12, dt_day := 31\<rparr>)
      else Inl OverflowError)"

section \<open>The built-ins\<close>

text \<open>
  Four functions of the interpreter and its standard library are parameters of the
  model, since what they return depends on the Unicode tables and on the version of the
  interpreter: \<open>str.strip\<close>, \<open>str.lower\<close>, \<open>int\<close> on text and
  \<open>datetime.fromisoformat\<close>. On text the last two either return or raise ValueError:
  \<open>None\<close> stands for that ValueError.
\<close>

record builtins =
  py_strip :: "string \<Rightarrow> string"
  py_lower :: "string \<Rightarrow> string"
  py_int :: "string \<Rightarrow> int option"
  fromisoformat :: "string \<Rightarrow> datetime option"

section \<open>The field mapper (mapper.py)\<close>

text \<open>The \<open>Priority\<close> enumeration of the reminders library.\<close>

datatype priority = NONE | LOW | MEDIUM | HIGH

text \<open>
  A Things to-do is a dictionary; each key the code reads is a field, \<open>None\<close> when the
  dictionary has no such key. For the keys read with a plain \<open>get(key)\<close>, Python's
  \<open>None\<close> under the key reads the same. A title, an identifier or a priority, which
  are read with a default, hold a value of their type when the key is present.
\<close>

record checklist_item =
  item_status :: "string option"
  item_title :: "string option"

record todo =
  t_uuid :: "string option"
  t_title :: "string option"
  t_notes :: "string option"
  t_status :: "string option"
  t_start :: "string option"
  t_deadline :: "string option"
  t_when :: "string option"
  t_priority :: "int option"
  t_tags :: "string list option"
  t_checklist :: "checklist_item list option"
  t_project :: "string option"
  t_area :: "string option"
  t_stop_date :: "string option"

text \<open>
  The keyword arguments of \<open>create_reminder\<close>. The last four keys are set only on some
  paths: \<open>None\<close> is a key that was never set.
\<close>

record reminder_params =
  p_title :: string
  p_notes :: string
  p_due_date :: "datetime option"
  p_priority :: priority
  p_calendar_id :: "string option"
  p_tags :: "string list"
  p_completed :: "bool option"
  p_completion_date :: "string option"
  p_early_reminder_date :: "datetime option"
  p_flagged :: "bool option"

text \<open>Python's truth test on an optional text or list: present and not empty.\<close>

definition truthy :: "'a list option \<Rightarrow> bool" where
  "truthy v = (case v of None \<Rightarrow> False | Some s \<Rightarrow> s \<noteq> [])"

definition map_priority :: "int \<Rightarrow> priority" where
  "map_priority things_priority =
     (if things_priority = 0 then NONE
      else if things_priority = 1 then LOW
      else if things_priority = 2 then MEDIUM
      else if things_priority = 3 then HIGH
      else NONE)"

text \<open>
  The ValueError of \<open>fromisoformat\<close> is caught (line 52): \<open>parse_things_date\<close> then
  returns \<open>None\<close>.
\<close>

definition parse_things_date :: "builtins \<Rightarrow> string option \<Rightarrow> exn + datetime option" where
  "parse_things_date py date_str =
     (case date_str of
        None \<Rightarrow> Inr None
      | Some s \<Rightarrow>
          if s = [] then Inr None
          else (case fromisoformat py (replace_Z s) of
                  Some d \<Rightarrow> Inr (Some d)
                | None \<Rightarrow> Inr None))"

definition nl :: string where
  "nl = [CHR 0x0A]"

text \<open>The check mark, the ballot cross and the empty ballot box, in UTF-8.\<close>

definition check_mark :: string where
  "check_mark = [CHR 0xE2, CHR 0x9C, CHR 0x93]"

definition ballot_x :: string where
  "ballot_x = [CHR 0xE2, CHR 0x9C, CHR 0x97]"

definition ballot_box :: string where
  "ballot_box = [CHR 0xE2, CHR 0x98, CHR 0x90]"

text \<open>One line of the checklist block (the body of the loop over the items).\<close>

definition checklist_line :: "checklist_item \<Rightarrow> string" where
  "checklist_line item =
     (if item_status item = Some ''completed'' then check_mark else ballot_box) @ '' '' @
     (case item_title item of None \<Rightarrow> [] | Some s \<Rightarrow> s)"

definition footer :: "todo \<Rightarrow> string" where
  "footer t = ''Imported from Things - UUID: '' @ (case t_uuid t of None \<Rightarrow> [] | Some u \<Rightarrow> u)"

text \<open>
  \<open>notes_sections\<close> is threaded through the appends in the order the code makes them;
  \<open>s1\<close> to \<open>s6\<close> are its successive values.
\<close>

definition get_reminder_notes_from_todo :: "builtins \<Rightarrow> todo \<Rightarrow> exn + string" where
  "get_reminder_notes_from_todo py t =
     (let s1 = (case t_notes t of
                  None \<Rightarrow> []
                | Some n \<Rightarrow> if n = [] then [] else [n]);
          s2 = (if t_status t = Some ''completed'' then s1 @ [''Status: '' @ check_mark @ '' Completed'']
                else if t_status t = Some ''canceled'' then s1 @ [''Status: '' @ ballot_x @ '' Canceled'']
                else s1);
          s3 = (case t_start t of
                  None \<Rightarrow> s2
                | Some st \<Rightarrow> if st = [] then s2 else s2 @ [''Start: '' @ st])
      in and_then (if truthy (t_deadline t) then parse_things_date py (t_deadline t) else Inr None)
           (\<lambda>date_obj.
              let s4 = (case date_obj of
                          None \<Rightarrow> s3
                        | Some d \<Rightarrow> s3 @ [''Deadline: '' @ strftime_ymd d]);
                  s5 = (case t_checklist t of
                          None \<Rightarrow> s4
                        | Some items \<Rightarrow>
                            if items = [] then s4
                            else s4 @ [join nl (''Checklist:'' # map checklist_line items)]);
                  s6 = s5 @ [footer t]
              in Inr (join (nl @ nl) s6)))"

definition get_reminder_params_from_todo ::
  "builtins \<Rightarrow> todo \<Rightarrow> string option \<Rightarrow> exn + reminder_params" where
  "get_reminder_params_from_todo py t calendar_id =
     (let title = (case t_title t of None \<Rightarrow> ''Untitled Task'' | Some s \<Rightarrow> s) in
      and_then (get_reminder_notes_from_todo py t) (\<lambda>notes.
      and_then (if truthy (t_deadline t) then parse_things_date py (t_deadline t)
                else if truthy (t_when t) then parse_things_date py (t_when t)
                else Inr None) (\<lambda>due_date.
        let priority = map_priority (case t_priority t of None \<Rightarrow> 0 | Some p \<Rightarrow> p);
            tags = (case t_tags t of None \<Rightarrow> [] | Some ts \<Rightarrow> ts);
            params = \<lparr>p_title = title, p_notes = notes, p_due_date = due_date,
                      p_priority = priority, p_calendar_id = calendar_id, p_tags = tags,
                      p_completed = None, p_completion_date = None,
                      p_early_reminder_date = None, p_flagged = None\<rparr>;
            params1 = (if t_status t = Some ''completed''
                       then params\<lparr>p_completed := Some True, p_completion_date := t_stop_date t\<rparr>
                       else params)
        in if truthy (t_deadline t) \<and> t_start t = Some ''Anytime''
           then (case due_date of
                   None \<Rightarrow> Inr params1
                 | Some d \<Rightarrow>
                     and_then (minus_one_day d) (\<lambda>early_reminder_date.
                       Inr (params1\<lparr>p_early_reminder_date := Some early_reminder_date,
                                     p_flagged := Some True\<rparr>)))
           else Inr params1)))"

section \<open>Text operations of the exporter\<close>

text \<open>
  \<open>s.split(c)\<close>: the pieces between the separators; the empty text gives one empty
  piece. \<open>cur\<close> holds the piece being read, last character first.
\<close>

fun split_from :: "char \<Rightarrow> string \<Rightarrow> string \<Rightarrow> string list" where
  "split_from c cur [] = [rev cur]"
| "split_from c cur (x # xs) =
     (if x = c then rev cur # split_from c [] xs else split_from c (x # cur) xs)"

definition split_on :: "char \<Rightarrow> string \<Rightarrow> string list" where
  "split_on c s = split_from c [] s"

text \<open>\<open>line.split(':', 1)\<close> on a line that has a colon: the text before the first colon and the text after it.\<close>

definition before_colon :: "string \<Rightarrow> string" where
  "before_colon line = takeWhile (\<lambda>c. c \<noteq> CHR '':'') line"

definition after_colon :: "string \<Rightarrow> string" where
  "after_colon line = tl (dropWhile (\<lambda>c. c \<noteq> CHR '':'') line)"

text \<open>\<open>str(n)\<close> for a count or an index.\<close>

function str_nat :: "nat \<Rightarrow> string" where
  "str_nat n = (if n < 10 then [digit_char n] else str_nat (n div 10) @ [digit_char n])"
  by pat_completeness auto
termination
  by (relation "measure id") auto

section \<open>The exporter (exporter.py)\<close>

text \<open>
  The collaborators, and with them the built-ins of the interpreter the exporter runs
  on. The Things database is read-only data: each query of the client returns its list. The reminders client and the \<open>llm\<close> command may raise. What
  \<open>create_reminder\<close> answers may depend on everything asked of the collaborators so far.
\<close>

record calendar =
  cal_name :: string
  cal_id :: string

text \<open>An area, a project or a tag of Things: a dictionary read at \<open>uuid\<close> and \<open>title\<close>.\<close>

record item =
  i_uuid :: "string option"
  i_title :: "string option"

record things_client =
  get_areas :: "item list"
  get_projects :: "item list"
  get_tags :: "item list"
  get_todos :: "todo list"
  get_today_tasks :: "todo list"
  get_inbox_tasks :: "todo list"
  get_upcoming_tasks :: "todo list"
  get_someday_tasks :: "todo list"
  get_deadlines :: "todo list"
  get_completed_tasks :: "string option \<Rightarrow> todo list"
  get_canceled_tasks :: "todo list"
  get_all_tasks :: "todo list"

text \<open>Every call made to a collaborator, in the order of the calls.\<close>

datatype call =
    Get_areas | Get_projects | Get_tags | Get_todos | Get_today_tasks | Get_inbox_tasks
  | Get_upcoming_tasks | Get_someday_tasks | Get_deadlines | Get_completed_tasks "string option"
  | Get_canceled_tasks | Get_all_tasks
  | Get_default_calendar | List_calendars
  | Run_llm "string list" string
  | Create_reminder reminder_params

record 'r env =
  python :: builtins
  things :: things_client
  get_default_calendar :: "exn + calendar"
  list_calendars :: "exn + calendar list"
  run_llm :: "string list \<Rightarrow> string \<Rightarrow> exn + string"
  create_reminder :: "call list \<Rightarrow> reminder_params \<Rightarrow> exn + 'r"

text \<open>
  The warnings and errors the logger receives (the informational lines are left out):
  the line of classifier output that could not be parsed, and the identifier of the
  to-do whose reminder could not be created, with the exception.
\<close>

datatype log_entry =
    Could_not_parse string
  | Error_creating "string option" exn

text \<open>
  The exporter object: its three caches, the cached default calendar, and with them the
  log and the trace of the collaborator calls of the run.
\<close>

record exporter =
  area_map :: "(string option \<times> item) list"
  project_map :: "(string option \<times> item) list"
  tag_map :: "(string option \<times> string) list"
  default_calendar :: "calendar option"
  log :: "log_entry list"
  trace :: "call list"

definition new_exporter :: exporter where
  "new_exporter = \<lparr>area_map = [], project_map = [], tag_map = [], default_calendar = None,
     log = [], trace = []\<rparr>"

definition called :: "call \<Rightarrow> exporter \<Rightarrow> exporter" where
  "called c s = s\<lparr>trace := trace s @ [c]\<rparr>"

definition logged :: "log_entry \<Rightarrow> exporter \<Rightarrow> exporter" where
  "logged l s = s\<lparr>log := log s @ [l]\<rparr>"

subsection \<open>Metadata\<close>

definition process_areas :: "'r env \<Rightarrow> exporter \<Rightarrow> (string option \<times> item) list \<times> exporter" where
  "process_areas env s =
     (let areas = get_areas (things env);
          s1 = called Get_areas s;
          s2 = s1\<lparr>area_map := fold (\<lambda>area m. AList.update (i_uuid area) area m) areas (area_map s1)\<rparr>
      in (area_map s2, s2))"

definition process_projects :: "'r env \<Rightarrow> exporter \<Rightarrow> (string option \<times> item) list \<times> exporter" where
  "process_projects env s =
     (let projects = get_projects (things env);
          s1 = called Get_projects s;
          s2 = s1\<lparr>project_map :=
                  fold (\<lambda>project m. AList.update (i_uuid project) project m) projects (project_map s1)\<rparr>
      in (project_map s2, s2))"

definition process_tags :: "'r env \<Rightarrow> exporter \<Rightarrow> (string option \<times> string) list \<times> exporter" where
  "process_tags env s =
     (let tags = get_tags (things env);
          s1 = called Get_tags s;
          s2 = s1\<lparr>tag_map :=
                  fold (\<lambda>tag m. AList.update (i_uuid tag)
                                  (case i_title tag of None \<Rightarrow> ''Unnamed Tag'' | Some n \<Rightarrow> n) m)
                       tags (tag_map s1)\<rparr>
      in (tag_map s2, s2))"

text \<open>\<open>_get_default_calendar\<close>: asks the reminders client only while nothing is cached.\<close>

definition get_default_calendar_cached :: "'r env \<Rightarrow> exporter \<Rightarrow> (exn + calendar) \<times> exporter" where
  "get_default_calendar_cached env s =
     (case default_calendar s of
        Some c \<Rightarrow> (Inr c, s)
      | None \<Rightarrow>
          (case get_default_calendar env of
             Inl e \<Rightarrow> (Inl e, called Get_default_calendar s)
           | Inr c \<Rightarrow> (Inr c, (called Get_default_calendar s)\<lparr>default_calendar := Some c\<rparr>)))"

subsection \<open>Exporting a list of to-dos\<close>

text \<open>
  A \<open>for\<close> loop whose body may raise: \<open>acc\<close> holds the local variables the body
  updates; the first exception ends the loop.
\<close>

fun for_each ::
  "('a \<Rightarrow> 'b \<Rightarrow> exporter \<Rightarrow> (exn + 'b) \<times> exporter) \<Rightarrow> 'a list \<Rightarrow> 'b \<Rightarrow> exporter
   \<Rightarrow> (exn + 'b) \<times> exporter" where
  "for_each body [] acc s = (Inr acc, s)"
| "for_each body (x # xs) acc s =
     (case body x acc s of
        (Inl e, s') \<Rightarrow> (Inl e, s')
      | (Inr acc', s') \<Rightarrow> for_each body xs acc' s')"

text \<open>\<open>enumerate(xs)\<close>.\<close>

definition enumerate_from0 :: "'a list \<Rightarrow> (nat \<times> 'a) list" where
  "enumerate_from0 xs = zip [0..<length xs] xs"

definition batch_size :: nat where
  "batch_size = 300"

text \<open>\<open>todos[i:i+batch_size]\<close> for \<open>i\<close> in \<open>range(0, len(todos), batch_size)\<close>.\<close>

function batches :: "'a list \<Rightarrow> 'a list list" where
  "batches xs = (if xs = [] then [] else take batch_size xs # batches (drop batch_size xs))"
  by pat_completeness auto
termination
  by (relation "measure length") (auto simp: batch_size_def)

text \<open>\<open>calendar_dict\<close>: from the lower-cased name of each calendar to its identifier.\<close>

definition calendar_dict_of :: "builtins \<Rightarrow> calendar list \<Rightarrow> (string \<times> string) list" where
  "calendar_dict_of py calendars =
     fold (\<lambda>calendar d. AList.update (py_lower py (cal_name calendar)) (cal_id calendar) d)
       calendars []"

text \<open>
  One line of the classifier's reply (the body of the loop of lines 169 to 178). The
  ValueError of \<open>int\<close> is caught and the line logged.
\<close>

definition parse_calendar_line ::
  "builtins \<Rightarrow> (string \<times> string) list \<Rightarrow> string \<Rightarrow> (int \<times> string) list \<Rightarrow> exporter
   \<Rightarrow> (exn + (int \<times> string) list) \<times> exporter" where
  "parse_calendar_line py calendar_dict line calendar_assignments s =
     (if CHR '':'' \<in> set line
      then (case py_int py (py_strip py (before_colon line)) of
              None \<Rightarrow> (Inr calendar_assignments, logged (Could_not_parse line) s)
            | Some index \<Rightarrow>
                let calendar_name = py_lower py (py_strip py (after_colon line))
                in if calendar_name \<in> fst ` set calendar_dict
                   then (Inr (AList.update index calendar_name calendar_assignments), s)
                   else (Inr calendar_assignments, s))
      else (Inr calendar_assignments, s))"

definition parse_calendar_assignments ::
  "builtins \<Rightarrow> (string \<times> string) list \<Rightarrow> string \<Rightarrow> exporter
   \<Rightarrow> (exn + (int \<times> string) list) \<times> exporter" where
  "parse_calendar_assignments py calendar_dict stdout s =
     for_each (parse_calendar_line py calendar_dict) (split_on (CHR 0x0A) (py_strip py stdout)) [] s"

text \<open>
  \<open>llm_tagging_result\<close> is read at line 182, but nothing binds the name: the call that
  would is commented out (lines 162 to 165). Reading it raises NameError.
\<close>

definition llm_tagging_result :: "exn + string" where
  "llm_tagging_result = Inl NameError"

text \<open>One line of the tagging reply (the body of the loop of lines 182 to 190).\<close>

definition parse_tag_line ::
  "builtins \<Rightarrow> string \<Rightarrow> (int \<times> string list) list \<Rightarrow> exporter
   \<Rightarrow> (exn + (int \<times> string list) list) \<times> exporter" where
  "parse_tag_line py line tag_assignments s =
     (if CHR '':'' \<in> set line
      then (case py_int py (py_strip py (before_colon line)) of
              None \<Rightarrow> (Inr tag_assignments, logged (Could_not_parse line) s)
            | Some index \<Rightarrow>
                (Inr (AList.update index
                        (split_on (CHR '','') (py_lower py (py_strip py (after_colon line))))
                        tag_assignments), s))
      else (Inr tag_assignments, s))"

definition parse_tag_assignments ::
  "builtins \<Rightarrow> string \<Rightarrow> exporter \<Rightarrow> (exn + (int \<times> string list) list) \<times> exporter" where
  "parse_tag_assignments py stdout s =
     for_each (parse_tag_line py) (split_on (CHR 0x0A) (py_strip py stdout)) [] s"

text \<open>The context lines of a to-do: its project and its area, when the caches know them.\<close>

definition context_line :: "string \<Rightarrow> string \<Rightarrow> (string option \<times> item) list \<Rightarrow> string option \<Rightarrow> string list" where
  "context_line label unnamed cache ref =
     (if truthy ref
      then (case map_of cache ref of
              None \<Rightarrow> []
            | Some entry \<Rightarrow> [label @ (case i_title entry of None \<Rightarrow> unnamed | Some n \<Rightarrow> n)])
      else [])"

text \<open>
  One to-do of a batch (the body of the loop of lines 193 to 247). It is part of the text
  of \<open>export_todos\<close>, and so of its model, but no run reaches it: every batch ends at
  the NameError of line 182. \<open>jt\<close> is the pair of
  the index in the batch and the to-do. The default of the first \<open>get\<close>, the first key of
  \<open>calendar_dict\<close>, is computed before the lookup: without calendars it raises IndexError.
\<close>

definition export_todo ::
  "'r env \<Rightarrow> (string \<times> string) list \<Rightarrow> calendar \<Rightarrow> (int \<times> string) list
   \<Rightarrow> (int \<times> string list) list \<Rightarrow> nat \<times> todo \<Rightarrow> 'r list \<Rightarrow> exporter
   \<Rightarrow> (exn + 'r list) \<times> exporter" where
  "export_todo env calendar_dict default_cal calendar_assignments tag_assignments jt
     created_reminders s =
     (let j = fst jt; todo = snd jt in
      if calendar_dict = [] then (Inl IndexError, s)
      else
        let calendar_name_lower =
              (case map_of calendar_assignments (int j) of
                 Some n \<Rightarrow> n
               | None \<Rightarrow> fst (hd calendar_dict));
            calendar_id =
              (case map_of calendar_dict calendar_name_lower of
                 Some i \<Rightarrow> i
               | None \<Rightarrow> cal_id default_cal);
            context_info =
              context_line ''Project: '' ''Unnamed Project'' (project_map s) (t_project todo) @
              context_line ''Area: '' ''Unnamed Area'' (area_map s) (t_area todo);
            tag_names =
              (if truthy (t_tags todo)
               then (case map_of tag_assignments (int j) of Some ts \<Rightarrow> ts | None \<Rightarrow> [])
               else [])
        in case get_reminder_params_from_todo (python env) todo (Some (cal_id default_cal)) of
             Inl e \<Rightarrow> (Inl e, s)
           | Inr params \<Rightarrow>
               let params1 =
                     (if context_info \<noteq> []
                      then params\<lparr>p_notes :=
                             (if p_notes params \<noteq> []
                              then p_notes params @ nl @ nl @ join nl context_info
                              else join nl context_info)\<rparr>
                      else params);
                   params2 = params1\<lparr>p_tags := tag_names, p_calendar_id := Some calendar_id\<rparr>;
                   s1 = called (Create_reminder params2) s
               in case create_reminder env (trace s) params2 of
                    Inr reminder \<Rightarrow> (Inr (created_reminders @ [reminder]), s1)
                  | Inl e \<Rightarrow> (Inr created_reminders, logged (Error_creating (t_uuid todo) e) s1))"

definition batch_prompt_of :: "todo list \<Rightarrow> string" where
  "batch_prompt_of batch_todos =
     join nl (map (\<lambda>jt. str_nat (fst jt) @ '': pick the best calendar for this todo: '' @
                        (case t_title (snd jt) of None \<Rightarrow> ''Unnamed Todo'' | Some n \<Rightarrow> n))
                (enumerate_from0 batch_todos))"

text \<open>
  One batch (the body of the loop of lines 138 to 247). The classifier is given the
  names of the calendars, which its system prompt lists, and the prompt of the batch.
\<close>

definition export_batch ::
  "'r env \<Rightarrow> (string \<times> string) list \<Rightarrow> calendar \<Rightarrow> todo list \<Rightarrow> 'r list \<Rightarrow> exporter
   \<Rightarrow> (exn + 'r list) \<times> exporter" where
  "export_batch env calendar_dict default_cal batch_todos created_reminders s =
     (let batch_prompt = batch_prompt_of batch_todos;
          s1 = called (Run_llm (map fst calendar_dict) batch_prompt) s
      in case run_llm env (map fst calendar_dict) batch_prompt of
           Inl e \<Rightarrow> (Inl e, s1)
         | Inr stdout \<Rightarrow>
             (case parse_calendar_assignments (python env) calendar_dict stdout s1 of
                (Inl e, s2) \<Rightarrow> (Inl e, s2)
              | (Inr calendar_assignments, s2) \<Rightarrow>
                  (case llm_tagging_result of
                     Inl e \<Rightarrow> (Inl e, s2)
                   | Inr tagging_stdout \<Rightarrow>
                       (case parse_tag_assignments (python env) tagging_stdout s2 of
                          (Inl e, s3) \<Rightarrow> (Inl e, s3)
                        | (Inr tag_assignments, s3) \<Rightarrow>
                            for_each
                              (export_todo env calendar_dict default_cal calendar_assignments
                                 tag_assignments)
                              (enumerate_from0 batch_todos) created_reminders s3))))"

definition export_todos ::
  "'r env \<Rightarrow> todo list option \<Rightarrow> exporter \<Rightarrow> (exn + 'r list) \<times> exporter" where
  "export_todos env todos_list s =
     (let todos = (case todos_list of None \<Rightarrow> get_todos (things env) | Some l \<Rightarrow> l);
          s0 = (case todos_list of None \<Rightarrow> called Get_todos s | Some l \<Rightarrow> s)
      in case get_default_calendar_cached env s0 of
           (Inl e, s1) \<Rightarrow> (Inl e, s1)
         | (Inr default_cal, s1) \<Rightarrow>
             (case list_calendars env of
                Inl e \<Rightarrow> (Inl e, called List_calendars s1)
              | Inr calendars \<Rightarrow>
                  for_each (export_batch env (calendar_dict_of (python env) calendars) default_cal)
                    (batches todos) [] (called List_calendars s1)))"

subsection \<open>Choosing the to-dos\<close>

record filter_options =
  include_completed :: bool
  include_canceled :: bool
  only_with_deadlines :: bool
  only_today :: bool
  only_inbox :: bool
  only_upcoming :: bool
  only_someday :: bool
  completed_last :: "string option"
  filter_tag :: "string option"

text \<open>
  The helper \<open>add_todos\<close> of \<open>export_with_options\<close>; the pair is \<open>todos_to_export\<close> and
  \<open>todo_uuids\<close>, the two variables it updates.
\<close>

definition add_todo :: "todo \<Rightarrow> todo list \<times> string set \<Rightarrow> todo list \<times> string set" where
  "add_todo todo acc =
     (case t_uuid todo of
        None \<Rightarrow> acc
      | Some uuid \<Rightarrow>
          if uuid \<noteq> [] \<and> uuid \<notin> snd acc then (fst acc @ [todo], insert uuid (snd acc)) else acc)"

definition add_todos :: "todo list \<Rightarrow> todo list \<times> string set \<Rightarrow> todo list \<times> string set" where
  "add_todos todo_list acc = fold add_todo todo_list acc"

text \<open>An \<open>if\<close> that queries a view of Things and adds what it returns.\<close>

definition add_view ::
  "bool \<Rightarrow> call \<Rightarrow> todo list \<Rightarrow> (todo list \<times> string set) \<times> exporter
   \<Rightarrow> (todo list \<times> string set) \<times> exporter" where
  "add_view enabled c todo_list st =
     (if enabled then (add_todos todo_list (fst st), called c (snd st)) else st)"

text \<open>The names of the tags of a to-do that the tag cache knows.\<close>

definition tag_names_of :: "(string option \<times> string) list \<Rightarrow> todo \<Rightarrow> string list" where
  "tag_names_of tags todo =
     List.map_filter (\<lambda>tag_uuid. map_of tags (Some tag_uuid))
       (case t_tags todo of None \<Rightarrow> [] | Some ts \<Rightarrow> ts)"

text \<open>Lines 301 to 364 of \<open>export_with_options\<close>: the to-dos handed to \<open>export_todos\<close>.\<close>

definition select_todos :: "'r env \<Rightarrow> filter_options \<Rightarrow> exporter \<Rightarrow> todo list \<times> exporter" where
  "select_todos env opts s =
     (let th = things env;
          st1 = add_view (only_today opts) Get_today_tasks (get_today_tasks th) (([], {}), s);
          st2 = add_view (only_inbox opts) Get_inbox_tasks (get_inbox_tasks th) st1;
          st3 = add_view (only_upcoming opts) Get_upcoming_tasks (get_upcoming_tasks th) st2;
          st4 = add_view (only_someday opts) Get_someday_tasks (get_someday_tasks th) st3;
          st5 = add_view (only_with_deadlines opts) Get_deadlines (get_deadlines th) st4;
          st6 = add_view (\<not> (only_today opts \<or> only_inbox opts \<or> only_upcoming opts \<or>
                              only_someday opts \<or> only_with_deadlines opts))
                  Get_todos (get_todos th) st5;
          st7 = (case filter_tag opts of
                   None \<Rightarrow> st6
                 | Some tag \<Rightarrow>
                     if tag = [] then st6
                     else ((filter (\<lambda>todo. tag \<in> set (tag_names_of (tag_map s) todo)) (fst (fst st6)),
                            snd (fst st6)), snd st6));
          last = (if truthy (completed_last opts) then completed_last opts else None);
          st8 = add_view (include_completed opts) (Get_completed_tasks last)
                  (get_completed_tasks th last) st7;
          st9 = add_view (include_canceled opts) Get_canceled_tasks (get_canceled_tasks th) st8
      in (fst (fst st9), snd st9))"

subsection \<open>The entry points\<close>

text \<open>
  The three entry points begin with the same three calls (\<open>process_areas\<close>,
  \<open>process_projects\<close>, \<open>process_tags\<close>) and end with the same tuple of four counts:
  the sizes of the three caches and the number of reminders \<open>export_todos\<close> returned.
\<close>

definition load_metadata :: "'r env \<Rightarrow> exporter \<Rightarrow> (nat \<times> nat \<times> nat) \<times> exporter" where
  "load_metadata env s =
     (let r1 = process_areas env s;
          r2 = process_projects env (snd r1);
          r3 = process_tags env (snd r2)
      in ((length (fst r1), length (fst r2), length (fst r3)), snd r3))"

definition counts_of :: "nat \<times> nat \<times> nat \<Rightarrow> (exn + 'r list) \<times> exporter
   \<Rightarrow> (exn + nat \<times> nat \<times> nat \<times> nat) \<times> exporter" where
  "counts_of meta r =
     (case r of
        (Inl e, s) \<Rightarrow> (Inl e, s)
      | (Inr todos, s) \<Rightarrow> (Inr (fst meta, fst (snd meta), snd (snd meta), length todos), s))"

definition export_all :: "'r env \<Rightarrow> exporter \<Rightarrow> (exn + nat \<times> nat \<times> nat \<times> nat) \<times> exporter" where
  "export_all env s =
     (let m = load_metadata env s
      in counts_of (fst m) (export_todos env None (snd m)))"

definition export_with_options ::
  "'r env \<Rightarrow> filter_options \<Rightarrow> exporter \<Rightarrow> (exn + nat \<times> nat \<times> nat \<times> nat) \<times> exporter" where
  "export_with_options env opts s =
     (let m = load_metadata env s;
          sel = select_todos env opts (snd m)
      in counts_of (fst m) (export_todos env (Some (fst sel)) (snd sel)))"

definition export_all_tasks :: "'r env \<Rightarrow> exporter \<Rightarrow> (exn + nat \<times> nat \<times> nat \<times> nat) \<times> exporter" where
  "export_all_tasks env s =
     (let m = load_metadata env s
      in counts_of (fst m)
           (export_todos env (Some (get_all_tasks (things env))) (called Get_all_tasks (snd m))))"

section \<open>Vocabulary of the statements, and sample inputs\<close>

text \<open>
  Nothing below is part of the program: these are the notions the statements are made
  with, and the concrete inputs at which they are evaluated.
\<close>

subsection \<open>The notes, as the specification describes them\<close>

text \<open>
  Written from the words of the specification, with no definition of the model of
  \<open>get_reminder_notes_from_todo\<close>: the sections in the fixed order, each present only if
  its source data exists, a blank line after each, then the footer. Only the timestamp of
  the deadline is taken from the program (\<open>parse_things_date\<close>).
\<close>

definition blank_line :: string where
  "blank_line = [CHR 0x0A, CHR 0x0A]"

text \<open>A number on \<open>w\<close> decimal digits, and the date alone as \<open>YYYY-MM-DD\<close>.\<close>

fun zero_padded :: "nat \<Rightarrow> nat \<Rightarrow> string" where
  "zero_padded 0 n = []"
| "zero_padded (Suc w) n = zero_padded w (n div 10) @ [char_of (48 + n mod 10)]"

definition iso_date :: "datetime \<Rightarrow> string" where
  "iso_date d = zero_padded 4 (dt_year d) @ ''-'' @ zero_padded 2 (dt_month d) @ ''-'' @
     zero_padded 2 (dt_day d)"

text \<open>The deadline of a to-do as a timestamp: present, not empty, and parsed.\<close>

definition deadline_date :: "builtins \<Rightarrow> todo \<Rightarrow> datetime option" where
  "deadline_date py t =
     (case t_deadline t of
        None \<Rightarrow> None
      | Some s \<Rightarrow>
          if s = [] then None
          else (case parse_things_date py (Some s) of Inr r \<Rightarrow> r | Inl e \<Rightarrow> None))"

definition notes_section :: "todo \<Rightarrow> string option" where
  "notes_section t = (case t_notes t of None \<Rightarrow> None | Some n \<Rightarrow> if n = [] then None else Some n)"

definition status_section :: "todo \<Rightarrow> string option" where
  "status_section t =
     (if t_status t = Some ''completed''
      then Some (''Status: '' @ [CHR 0xE2, CHR 0x9C, CHR 0x93] @ '' Completed'')
      else if t_status t = Some ''canceled''
      then Some (''Status: '' @ [CHR 0xE2, CHR 0x9C, CHR 0x97] @ '' Canceled'')
      else None)"

definition start_section :: "todo \<Rightarrow> string option" where
  "start_section t =
     (case t_start t of None \<Rightarrow> None | Some st \<Rightarrow> if st = [] then None else Some (''Start: '' @ st))"

definition deadline_section :: "builtins \<Rightarrow> todo \<Rightarrow> string option" where
  "deadline_section py t = map_option (\<lambda>d. ''Deadline: '' @ iso_date d) (deadline_date py t)"

text \<open>
  A line of the checklist: the check mark and a blank before the title of an item that
  is done (its status is \<open>completed\<close>), the empty ballot box and a blank before any other.
\<close>

definition item_line :: "checklist_item \<Rightarrow> string" where
  "item_line item =
     (if item_status item = Some ''completed''
      then [CHR 0xE2, CHR 0x9C, CHR 0x93, CHR 0x20]
      else [CHR 0xE2, CHR 0x98, CHR 0x90, CHR 0x20]) @
     (case item_title item of None \<Rightarrow> [] | Some title \<Rightarrow> title)"

definition checklist_section :: "todo \<Rightarrow> string option" where
  "checklist_section t =
     (case t_checklist t of
        None \<Rightarrow> None
      | Some items \<Rightarrow>
          if items = [] then None
          else Some (''Checklist:'' @ concat (map (\<lambda>item. CHR 0x0A # item_line item) items)))"

definition notes_footer :: "todo \<Rightarrow> string" where
  "notes_footer t =
     ''Imported from Things - UUID: '' @ (case t_uuid t of None \<Rightarrow> [] | Some uuid \<Rightarrow> uuid)"

text \<open>The sections that are present, in order.\<close>

definition present :: "'a option list \<Rightarrow> 'a list" where
  "present xs = List.map_filter id xs"

definition notes_text :: "builtins \<Rightarrow> todo \<Rightarrow> string" where
  "notes_text py t =
     concat (map (\<lambda>sec. sec @ blank_line)
               (present [notes_section t, status_section t, start_section t,
                         deadline_section py t, checklist_section t]))
     @ notes_footer t"

subsection \<open>The parameters of a reminder\<close>

text \<open>
  The due date as the specification describes it: the deadline if there is one, else the
  \<open>when\<close> date, each as \<open>parse_things_date\<close> reads it.
\<close>

definition due_date_of :: "builtins \<Rightarrow> todo \<Rightarrow> datetime option" where
  "due_date_of py t =
     (if truthy (t_deadline t)
      then (case parse_things_date py (t_deadline t) of Inr r \<Rightarrow> r | Inl e \<Rightarrow> None)
      else if truthy (t_when t)
      then (case parse_things_date py (t_when t) of Inr r \<Rightarrow> r | Inl e \<Rightarrow> None)
      else None)"

text \<open>
  The parameters of a to-do before the rule of the early reminder: the six keys always
  set, and the two keys of a completed to-do.
\<close>

definition base_params :: "builtins \<Rightarrow> todo \<Rightarrow> string option \<Rightarrow> reminder_params" where
  "base_params py t calendar_id =
     \<lparr>p_title = (case t_title t of None \<Rightarrow> ''Untitled Task'' | Some s \<Rightarrow> s),
      p_notes = notes_text py t, p_due_date = due_date_of py t,
      p_priority = map_priority (case t_priority t of None \<Rightarrow> 0 | Some n \<Rightarrow> n),
      p_calendar_id = calendar_id,
      p_tags = (case t_tags t of None \<Rightarrow> [] | Some ts \<Rightarrow> ts),
      p_completed = (if t_status t = Some ''completed'' then Some True else None),
      p_completion_date = (if t_status t = Some ''completed'' then t_stop_date t else None),
      p_early_reminder_date = None, p_flagged = None\<rparr>"

subsection \<open>The reply of the classifier\<close>

text \<open>The lines of the classifier's reply, as the parser walks them.\<close>

definition reply_lines :: "builtins \<Rightarrow> string \<Rightarrow> string list" where
  "reply_lines py stdout = split_on (CHR 0x0A) (py_strip py stdout)"

text \<open>
  The assignment a line gives, as the specification describes it: the line has a colon,
  the text before the first colon reads as an integer, and the trimmed, lower-cased text
  after it is the name of a calendar.
\<close>

definition line_assignment ::
  "builtins \<Rightarrow> (string \<times> string) list \<Rightarrow> string \<Rightarrow> (int \<times> string) option" where
  "line_assignment py calendar_dict line =
     (if CHR '':'' \<in> set line
      then (case py_int py (py_strip py (before_colon line)) of
              None \<Rightarrow> None
            | Some index \<Rightarrow>
                if py_lower py (py_strip py (after_colon line)) \<in> fst ` set calendar_dict
                then Some (index, py_lower py (py_strip py (after_colon line)))
                else None)
      else None)"

text \<open>A line with a colon whose index does not read as an integer.\<close>

definition unparsed_index :: "builtins \<Rightarrow> string \<Rightarrow> bool" where
  "unparsed_index py line =
     (CHR '':'' \<in> set line \<and> py_int py (py_strip py (before_colon line)) = None)"

text \<open>The assignments of the lines that give one, in order, and their storing in the dictionary.\<close>

definition accepted ::
  "builtins \<Rightarrow> (string \<times> string) list \<Rightarrow> string list \<Rightarrow> (int \<times> string) list" where
  "accepted py calendar_dict lines = List.map_filter (line_assignment py calendar_dict) lines"

definition assign_all :: "(int \<times> string) list \<Rightarrow> (int \<times> string) list \<Rightarrow> (int \<times> string) list" where
  "assign_all pairs acc = fold (\<lambda>a m. AList.update (fst a) (snd a) m) pairs acc"

subsection \<open>The queue, the caches and the trace\<close>

text \<open>
  The invariant of \<open>add_todos\<close>: the to-dos queued so far have different identifiers,
  each not empty and recorded in \<open>todo_uuids\<close>.
\<close>

definition queued :: "todo list \<times> string set \<Rightarrow> bool" where
  "queued acc =
     (distinct (map t_uuid (fst acc))
      \<and> list_all (\<lambda>t. case t_uuid t of None \<Rightarrow> False | Some u \<Rightarrow> u \<noteq> [] \<and> u \<in> snd acc) (fst acc))"

text \<open>Storing fetched entries into a cache, as \<open>process_areas\<close> and its two siblings do.\<close>

definition cache_all :: "('x \<Rightarrow> 'k) \<Rightarrow> ('x \<Rightarrow> 'v) \<Rightarrow> 'x list \<Rightarrow> ('k \<times> 'v) list \<Rightarrow> ('k \<times> 'v) list" where
  "cache_all key val xs m = fold (\<lambda>x. AList.update (key x) (val x)) xs m"

text \<open>
  What a lookup map holds under a key once the fetched entries are stored: the value of
  the last fetched entry with this key, and what it held before when there is none.
\<close>

definition stored ::
  "('x \<Rightarrow> 'k) \<Rightarrow> ('x \<Rightarrow> 'v) \<Rightarrow> 'x list \<Rightarrow> ('k \<times> 'v) list \<Rightarrow> 'k \<Rightarrow> 'v option" where
  "stored key val fetched before k =
     (case filter (\<lambda>x. key x = k) fetched of
        [] \<Rightarrow> map_of before k
      | x # xs \<Rightarrow> Some (val (last (x # xs))))"

text \<open>The name a tag is stored under.\<close>

definition tag_title :: "item \<Rightarrow> string" where
  "tag_title tag = (case i_title tag of None \<Rightarrow> ''Unnamed Tag'' | Some n \<Rightarrow> n)"

text \<open>The parameters of the calls of \<open>create_reminder\<close> in a trace, in order.\<close>

fun created_params :: "call \<Rightarrow> reminder_params option" where
  "created_params (Create_reminder p) = Some p"
| "created_params c = None"

definition creations :: "call list \<Rightarrow> reminder_params list" where
  "creations tr = List.map_filter created_params tr"

subsection \<open>Sample inputs\<close>

text \<open>
  An interpreter for the samples. On their text, which is ASCII, \<open>strip\<close> drops the white
  space at both ends, \<open>lower\<close> turns capital letters into small ones, and \<open>int\<close> reads an
  optional sign and decimal digits, single underscores allowed between them.
  \<open>sample_fromisoformat\<close> knows three texts, and raises ValueError on any other.
\<close>

definition is_space :: "char \<Rightarrow> bool" where
  "is_space c = ((9 \<le> (of_char c :: nat) \<and> (of_char c :: nat) \<le> 13)
     \<or> (28 \<le> (of_char c :: nat) \<and> (of_char c :: nat) \<le> 32))"

definition sample_strip :: "string \<Rightarrow> string" where
  "sample_strip s = rev (dropWhile is_space (rev (dropWhile is_space s)))"

definition lower_char :: "char \<Rightarrow> char" where
  "lower_char c =
     (case map_of (zip ''ABCDEFGHIJKLMNOPQRSTUVWXYZ'' ''abcdefghijklmnopqrstuvwxyz'') c of
        Some l \<Rightarrow> l
      | None \<Rightarrow> c)"

definition sample_lower :: "string \<Rightarrow> string" where
  "sample_lower s = map lower_char s"

definition is_digit :: "char \<Rightarrow> bool" where
  "is_digit c = (48 \<le> (of_char c :: nat) \<and> (of_char c :: nat) \<le> 57)"

definition digits_value :: "string \<Rightarrow> nat" where
  "digits_value s = foldl (\<lambda>a c. 10 * a + ((of_char c :: nat) - 48)) 0 s"

fun int_body :: "string \<Rightarrow> bool" where
  "int_body [] = False"
| "int_body [c] = is_digit c"
| "int_body (c # d # cs) =
     (is_digit c \<and> (if d = CHR ''_'' then int_body cs else int_body (d # cs)))"

definition sample_int :: "string \<Rightarrow> int option" where
  "sample_int s =
     (let t = sample_strip s;
          neg = (t \<noteq> [] \<and> hd t = CHR ''-'');
          body = (if t \<noteq> [] \<and> (hd t = CHR ''-'' \<or> hd t = CHR ''+'') then tl t else t)
      in if int_body body
         then Some ((if neg then - 1 else 1) * int (digits_value (filter is_digit body)))
         else None)"

definition test_timestamp :: datetime where
  "test_timestamp = \<lparr>dt_year = 2023, dt_month = 10, dt_day = 15, dt_hour = 14, dt_minute = 30,
     dt_second = 0, dt_microsecond = 0, dt_utcoffset = None\<rparr>"

definition sample_fromisoformat :: "string \<Rightarrow> datetime option" where
  "sample_fromisoformat s =
     (if s = ''2023-10-15T14:30:00'' then Some test_timestamp
      else if s = ''2023-10-15T14:30:00+00:00'' then Some (test_timestamp\<lparr>dt_utcoffset := Some 0\<rparr>)
      else if s = ''2023-10-15'' then Some (test_timestamp\<lparr>dt_hour := 0, dt_minute := 0\<rparr>)
      else None)"

definition sample_python :: builtins where
  "sample_python = \<lparr>py_strip = sample_strip, py_lower = sample_lower, py_int = sample_int,
     fromisoformat = sample_fromisoformat\<rparr>"

text \<open>The to-do with no key at all, and the to-dos of the tests of the mapper with variations.\<close>

definition empty_todo :: todo where
  "empty_todo = \<lparr>t_uuid = None, t_title = None, t_notes = None, t_status = None,
     t_start = None, t_deadline = None, t_when = None, t_priority = None, t_tags = None,
     t_checklist = None, t_project = None, t_area = None, t_stop_date = None\<rparr>"

definition bare_todo :: todo where
  "bare_todo = empty_todo\<lparr>t_uuid := Some ''todo3''\<rparr>"

text \<open>A to-do with every section: notes, status, start, deadline, checklist.\<close>

definition full_todo :: todo where
  "full_todo = empty_todo\<lparr>t_uuid := Some ''todo2'', t_notes := Some ''Todo with checklist'',
     t_status := Some ''completed'', t_start := Some ''Anytime'',
     t_deadline := Some ''2023-10-15T14:30:00Z'',
     t_checklist := Some [\<lparr>item_status = Some ''completed'', item_title = Some ''Item 1''\<rparr>,
                          \<lparr>item_status = Some ''incomplete'', item_title = Some ''Item 2''\<rparr>,
                          \<lparr>item_status = Some ''canceled'', item_title = Some ''Item 3''\<rparr>]\<rparr>"

definition anytime_todo :: todo where
  "anytime_todo = empty_todo\<lparr>t_uuid := Some ''todo1'', t_title := Some ''Test Todo'',
     t_start := Some ''Anytime'', t_deadline := Some ''2023-10-15T14:30:00Z'',
     t_priority := Some 3\<rparr>"

definition unparseable_todo :: todo where
  "unparseable_todo = empty_todo\<lparr>t_uuid := Some ''todo4'', t_title := Some ''Test Todo'',
     t_start := Some ''Anytime'', t_deadline := Some ''not a date''\<rparr>"

definition untitled_todo :: todo where
  "untitled_todo = empty_todo\<lparr>t_uuid := Some ''todo5'', t_title := Some []\<rparr>"

definition anytime_due :: datetime where
  "anytime_due = test_timestamp\<lparr>dt_utcoffset := Some 0\<rparr>"

definition anytime_params :: reminder_params where
  "anytime_params = (base_params sample_python anytime_todo (Some ''cal123''))
     \<lparr>p_early_reminder_date := Some (anytime_due\<lparr>dt_day := 14\<rparr>), p_flagged := Some True\<rparr>"

definition bare_params :: reminder_params where
  "bare_params = base_params sample_python bare_todo None"

text \<open>A reply of four lines: one good, one without colon, one with an unknown calendar, one with a bad index.\<close>

definition sample_calendar_dict :: "(string \<times> string) list" where
  "sample_calendar_dict = [(''personal'', ''id-p''), (''work'', ''id-w'')]"

definition sample_reply :: string where
  "sample_reply = ''0: personal'' @ [CHR 0x0A] @ ''badline'' @ [CHR 0x0A] @ ''2: nonexistent'' @
     [CHR 0x0A] @ ''x: work'' @ [CHR 0x0A]"

text \<open>Every option off; a Things database with nothing in it; two to-dos.\<close>

definition no_options :: filter_options where
  "no_options = \<lparr>include_completed = False, include_canceled = False, only_with_deadlines = False,
     only_today = False, only_inbox = False, only_upcoming = False, only_someday = False,
     completed_last = None, filter_tag = None\<rparr>"

definition empty_things :: things_client where
  "empty_things = \<lparr>get_areas = [], get_projects = [], get_tags = [], get_todos = [],
     get_today_tasks = [], get_inbox_tasks = [], get_upcoming_tasks = [], get_someday_tasks = [],
     get_deadlines = [], get_completed_tasks = (\<lambda>last. []), get_canceled_tasks = [],
     get_all_tasks = []\<rparr>"

definition todo_a :: todo where
  "todo_a = empty_todo\<lparr>t_uuid := Some ''a'', t_title := Some ''Buy milk''\<rparr>"

definition todo_b :: todo where
  "todo_b = empty_todo\<lparr>t_uuid := Some ''b'', t_title := Some ''Write report''\<rparr>"

text \<open>
  Collaborators that all answer: Today holds the first to-do, the Inbox both; Work and
  Personal are the calendars, Personal the default; the classifier replies nothing;
  every reminder is created, its title standing for the record.
\<close>

definition sample_calendars :: "calendar list" where
  "sample_calendars = [\<lparr>cal_name = ''Work'', cal_id = ''id-w''\<rparr>,
                       \<lparr>cal_name = ''Personal'', cal_id = ''id-p''\<rparr>]"

definition sample_default :: calendar where
  "sample_default = \<lparr>cal_name = ''Personal'', cal_id = ''id-p''\<rparr>"

definition working_env :: "string env" where
  "working_env = \<lparr>python = sample_python,
     things = empty_things\<lparr>get_today_tasks := [todo_a], get_inbox_tasks := [todo_a, todo_b]\<rparr>,
     get_default_calendar = Inr sample_default,
     list_calendars = Inr sample_calendars,
     run_llm = (\<lambda>names prompt. Inr []),
     create_reminder = (\<lambda>history params. Inr (p_title params))\<rparr>"

text \<open>A reminders client that rejects the reminder titled Buy milk.\<close>

definition flaky_env :: "string env" where
  "flaky_env = working_env\<lparr>create_reminder :=
     (\<lambda>history params. if p_title params = ''Buy milk'' then Inl (Failure ''rejected'')
                         else Inr (p_title params))\<rparr>"

text \<open>A Things database with three areas, two of them under the same identifier, and two tags.\<close>

definition area_home :: item where
  "area_home = \<lparr>i_uuid = Some ''area1'', i_title = Some ''Home''\<rparr>"

definition area_office :: item where
  "area_office = \<lparr>i_uuid = Some ''area2'', i_title = Some ''Office''\<rparr>"

definition area_house :: item where
  "area_house = \<lparr>i_uuid = Some ''area1'', i_title = Some ''House''\<rparr>"

definition tag_urgent :: item where
  "tag_urgent = \<lparr>i_uuid = Some ''tag1'', i_title = Some ''urgent''\<rparr>"

definition tag_nameless :: item where
  "tag_nameless = \<lparr>i_uuid = Some ''tag2'', i_title = None\<rparr>"

definition metadata_env :: "string env" where
  "metadata_env = working_env\<lparr>things := empty_things\<lparr>get_areas := [area_home, area_office, area_house],
     get_projects := [area_office], get_tags := [tag_urgent, tag_nameless]\<rparr>\<rparr>"

section \<open>Lemmas\<close>

lemma of_char_digit_char: "(of_char (digit_char n) :: nat) = 48 + n mod 10"
proof -
  have "n mod 10 < 10" by simp
  then consider "n mod 10 = 0" | "n mod 10 = 1" | "n mod 10 = 2" | "n mod 10 = 3" | "n mod 10 = 4"
    | "n mod 10 = 5" | "n mod 10 = 6" | "n mod 10 = 7" | "n mod 10 = 8" | "n mod 10 = 9"
    by atomize_elim arith
  then show ?thesis
    by cases (simp_all add: digit_char_def)
qed

lemma digit_char_char_of: "digit_char n = char_of (48 + n mod 10)"
proof -
  have "char_of (of_char (digit_char n) :: nat) = char_of (48 + n mod 10)"
    by (simp only: of_char_digit_char)
  then show ?thesis by simp
qed

lemma zero_padded_2: "zero_padded 2 n = pad2 n"
  by (simp add: numeral_2_eq_2 pad2_def digit_char_char_of)

lemma zero_padded_4: "zero_padded 4 n = pad4 n"
proof -
  have a: "n div 10 div 10 = n div 100"
    by (simp add: div_mult2_eq)
  have b: "n div 100 div 10 = n div 1000"
    by (simp add: div_mult2_eq)
  have "zero_padded (Suc (Suc (Suc (Suc 0)))) n =
      [char_of (48 + n div 10 div 10 div 10 mod 10), char_of (48 + n div 10 div 10 mod 10),
       char_of (48 + n div 10 mod 10), char_of (48 + n mod 10)]"
    by simp
  also have "\<dots> = pad4 n"
    unfolding pad4_def digit_char_char_of a b ..
  finally show ?thesis by (simp only: numeral_eq_Suc pred_numeral_simps BitM.simps)
qed

lemma iso_date_strftime: "iso_date d = strftime_ymd d"
  by (simp add: iso_date_def strftime_ymd_def zero_padded_2 zero_padded_4)

lemma join_snoc: "xs \<noteq> [] \<Longrightarrow> join sep (xs @ [x]) = join sep xs @ sep @ x"
  by (induction sep xs rule: join.induct) auto

lemma join_Cons: "join sep (x # xs) = x @ concat (map (\<lambda>y. sep @ y) xs)"
  by (induction xs arbitrary: x) simp_all

lemma concat_sep_shift:
  "concat (map (\<lambda>y. sep @ y) xs) @ sep = sep @ concat (map (\<lambda>y. y @ sep) xs)"
  by (induction xs) simp_all

lemma join_then_last: "join sep (xs @ [x]) = concat (map (\<lambda>y. y @ sep) xs) @ x"
proof (cases xs)
  case Nil
  then show ?thesis by simp
next
  case (Cons a as)
  have "join sep ((a # as) @ [x]) = a @ (concat (map (\<lambda>y. sep @ y) as) @ sep) @ x"
    by (simp add: join_Cons)
  also have "\<dots> = concat (map (\<lambda>y. y @ sep) (a # as)) @ x"
    by (simp only: concat_sep_shift) simp
  finally show ?thesis by (simp only: Cons)
qed

lemma checklist_line_item_line: "checklist_line item = item_line item"
  by (simp add: checklist_line_def item_line_def check_mark_def ballot_box_def)

lemma parse_things_date_returns: "\<exists>r. parse_things_date py date_str = Inr r"
  by (auto simp: parse_things_date_def split: option.splits)

lemma parse_things_date_Inr:
  "parse_things_date py x = Inr (case parse_things_date py x of Inr r \<Rightarrow> r | Inl e \<Rightarrow> None)"
  using parse_things_date_returns [of py x] by auto

lemma deadline_date_eq:
  "(if truthy (t_deadline t) then parse_things_date py (t_deadline t) else Inr None)
     = Inr (deadline_date py t)"
  using parse_things_date_Inr [of py "t_deadline t"]
  by (auto simp: deadline_date_def truthy_def split: option.splits)

lemma get_reminder_notes_render: "get_reminder_notes_from_todo py t = Inr (notes_text py t)"
  unfolding get_reminder_notes_from_todo_def deadline_date_eq
  by (auto simp: and_then_def notes_text_def present_def Let_def join_then_last join_Cons
      notes_section_def status_section_def start_section_def deadline_section_def
      checklist_section_def notes_footer_def footer_def blank_line_def nl_def
      check_mark_def ballot_x_def iso_date_strftime checklist_line_item_line comp_def
      split: option.splits)

lemma due_date_of_deadline: "deadline_date py t = Some d \<Longrightarrow> due_date_of py t = Some d"
  by (auto simp: deadline_date_def due_date_of_def truthy_def split: option.splits if_splits)

lemma deadline_date_truthy:
  "truthy (t_deadline t) \<Longrightarrow> due_date_of py t = deadline_date py t"
  "\<not> truthy (t_deadline t) \<Longrightarrow> deadline_date py t = None"
  by (auto simp: deadline_date_def due_date_of_def truthy_def split: option.splits)

lemma get_reminder_params_char:
  "get_reminder_params_from_todo py t c =
     (if t_start t = Some ''Anytime''
      then (case deadline_date py t of
              None \<Rightarrow> Inr (base_params py t c)
            | Some d \<Rightarrow>
                (case minus_one_day d of
                   Inl e \<Rightarrow> Inl e
                 | Inr early \<Rightarrow> Inr ((base_params py t c)\<lparr>p_early_reminder_date := Some early,
                                                          p_flagged := Some True\<rparr>)))
      else Inr (base_params py t c))"
proof -
  have d: "(if truthy (t_deadline t) then parse_things_date py (t_deadline t)
            else if truthy (t_when t) then parse_things_date py (t_when t) else Inr None)
      = Inr (due_date_of py t)"
    using parse_things_date_Inr [of py "t_deadline t"] parse_things_date_Inr [of py "t_when t"]
    by (simp add: due_date_of_def)
  show ?thesis
    unfolding get_reminder_params_from_todo_def d get_reminder_notes_render
    by (cases "truthy (t_deadline t)")
       (auto simp: and_then_def Let_def base_params_def deadline_date_truthy
          split: option.splits sum.splits)
qed

lemmas sample_eval = sample_python_def sample_fromisoformat_def sample_strip_def is_space_def
  sample_lower_def lower_char_def sample_int_def is_digit_def digits_value_def
  replace_Z_def parse_things_date_def test_timestamp_def Let_def

lemmas spec_eval = notes_text_def present_def List.map_filter_simps notes_section_def
  status_section_def start_section_def deadline_section_def deadline_date_def
  checklist_section_def item_line_def notes_footer_def blank_line_def iso_date_def
  zero_padded_2 zero_padded_4 pad2_def pad4_def digit_char_def

lemma anytime_deadline: "deadline_date sample_python anytime_todo = Some anytime_due"
  by (simp add: deadline_date_def anytime_todo_def empty_todo_def anytime_due_def sample_eval)

lemma anytime_returns:
  "get_reminder_params_from_todo sample_python anytime_todo (Some ''cal123'') = Inr anytime_params"
  by (simp add: get_reminder_params_char anytime_deadline anytime_params_def minus_one_day_def
      anytime_due_def test_timestamp_def)
    (simp add: anytime_todo_def empty_todo_def)

lemma parse_calendar_line_eq:
  "parse_calendar_line py cd line acc s =
     (Inr (assign_all (accepted py cd [line]) acc),
      s\<lparr>log := log s @ map Could_not_parse (filter (unparsed_index py) [line])\<rparr>)"
  by (cases "py_int py (py_strip py (before_colon line))")
     (simp_all add: parse_calendar_line_def accepted_def line_assignment_def unparsed_index_def
        assign_all_def List.map_filter_simps logged_def Let_def)

lemma accepted_Cons: "accepted py cd (l # ls) = accepted py cd [l] @ accepted py cd ls"
  by (simp add: accepted_def List.map_filter_simps split: option.splits)

lemma assign_all_append: "assign_all (xs @ ys) acc = assign_all ys (assign_all xs acc)"
  by (simp add: assign_all_def)

lemma for_each_parse_calendar_line:
  "for_each (parse_calendar_line py cd) lines acc s =
     (Inr (assign_all (accepted py cd lines) acc),
      s\<lparr>log := log s @ map Could_not_parse (filter (unparsed_index py) lines)\<rparr>)"
proof (induction lines arbitrary: acc s)
  case Nil
  then show ?case by (simp add: accepted_def assign_all_def List.map_filter_simps)
next
  case (Cons l ls)
  have "for_each (parse_calendar_line py cd) (l # ls) acc s =
      for_each (parse_calendar_line py cd) ls (assign_all (accepted py cd [l]) acc)
        (s\<lparr>log := log s @ map Could_not_parse (filter (unparsed_index py) [l])\<rparr>)"
    by (simp only: for_each.simps parse_calendar_line_eq prod.case sum.case)
  also have "\<dots> = (Inr (assign_all (accepted py cd ls) (assign_all (accepted py cd [l]) acc)),
      s\<lparr>log := log s @ map Could_not_parse (filter (unparsed_index py) [l])
                      @ map Could_not_parse (filter (unparsed_index py) ls)\<rparr>)"
    by (simp only: Cons.IH) simp
  finally show ?case
    by (simp add: accepted_Cons [of py cd l ls] assign_all_append)
qed

lemma map_of_assign_all: "map_of (assign_all pairs acc) = map_of acc ++ map_of (rev pairs)"
proof (induction pairs arbitrary: acc)
  case Nil
  then show ?case by (simp add: assign_all_def)
next
  case (Cons a pairs)
  have "map_of (assign_all (a # pairs) acc) = map_of (AList.update (fst a) (snd a) acc) ++ map_of (rev pairs)"
    using Cons.IH [of "AList.update (fst a) (snd a) acc"] by (simp add: assign_all_def)
  also have "\<dots> = map_of acc ++ map_of (rev (a # pairs))"
    by (cases a) (simp add: AList.update_conv' map_add_def fun_eq_iff split: option.splits)
  finally show ?case .
qed

lemma keys_assign_all: "fst ` set (assign_all pairs acc) = fst ` set pairs \<union> fst ` set acc"
  by (induction pairs arbitrary: acc) (auto simp: assign_all_def AList.dom_update)

lemmas text_eval = split_on_def before_colon_def after_colon_def sample_eval int_body.simps

lemmas parse_eval = parse_calendar_assignments_def parse_calendar_line_def logged_def
  new_exporter_def sample_calendar_dict_def

lemma queued_add_todo: "queued acc \<Longrightarrow> queued (add_todo t acc)"
  by (cases "t_uuid t")
     (auto simp: queued_def add_todo_def list_all_iff image_iff split: option.splits)

lemma queued_add_todos: "queued acc \<Longrightarrow> queued (add_todos ts acc)"
  unfolding add_todos_def
  by (induction ts arbitrary: acc) (simp_all add: queued_add_todo)

lemma queued_add_view: "queued (fst st) \<Longrightarrow> queued (fst (add_view enabled c ts st))"
  by (simp add: add_view_def queued_add_todos)

lemma queued_filter: "queued (xs, U) \<Longrightarrow> queued (filter P xs, U)"
  by (auto simp: queued_def list_all_iff distinct_map_filter split: option.splits)

lemma queued_select_todos:
  "\<exists>U. queued (fst (select_todos env opts s), U)"
proof -
  define th where "th = things env"
  define st1 where "st1 = add_view (only_today opts) Get_today_tasks (get_today_tasks th) (([], {}), s)"
  define st2 where "st2 = add_view (only_inbox opts) Get_inbox_tasks (get_inbox_tasks th) st1"
  define st3 where "st3 = add_view (only_upcoming opts) Get_upcoming_tasks (get_upcoming_tasks th) st2"
  define st4 where "st4 = add_view (only_someday opts) Get_someday_tasks (get_someday_tasks th) st3"
  define st5 where "st5 = add_view (only_with_deadlines opts) Get_deadlines (get_deadlines th) st4"
  define st6 where "st6 = add_view (\<not> (only_today opts \<or> only_inbox opts \<or> only_upcoming opts \<or>
                              only_someday opts \<or> only_with_deadlines opts))
                  Get_todos (get_todos th) st5"
  define st7 where "st7 = (case filter_tag opts of
                   None \<Rightarrow> st6
                 | Some tag \<Rightarrow>
                     if tag = [] then st6
                     else ((filter (\<lambda>todo. tag \<in> set (tag_names_of (tag_map s) todo)) (fst (fst st6)),
                            snd (fst st6)), snd st6))"
  define last where "last = (if truthy (completed_last opts) then completed_last opts else None)"
  define st8 where "st8 = add_view (include_completed opts) (Get_completed_tasks last)
                  (get_completed_tasks th last) st7"
  define st9 where "st9 = add_view (include_canceled opts) Get_canceled_tasks (get_canceled_tasks th) st8"
  have "queued (fst (([], {}), s))" by (simp add: queued_def)
  then have "queued (fst st1)" unfolding st1_def by (rule queued_add_view)
  then have "queued (fst st2)" unfolding st2_def by (rule queued_add_view)
  then have "queued (fst st3)" unfolding st3_def by (rule queued_add_view)
  then have "queued (fst st4)" unfolding st4_def by (rule queued_add_view)
  then have "queued (fst st5)" unfolding st5_def by (rule queued_add_view)
  then have 6: "queued (fst st6)" unfolding st6_def by (rule queued_add_view)
  have "queued (fst st7)"
    using 6 queued_filter [of "fst (fst st6)" "snd (fst st6)"]
    by (auto simp: st7_def split: option.splits)
  then have "queued (fst st8)" unfolding st8_def by (rule queued_add_view)
  then have 9: "queued (fst st9)" unfolding st9_def by (rule queued_add_view)
  have "select_todos env opts s = (fst (fst st9), snd st9)"
    unfolding select_todos_def Let_def st9_def st8_def last_def st7_def st6_def st5_def st4_def
      st3_def st2_def st1_def th_def ..
  then have "queued (fst (select_todos env opts s), snd (fst st9))"
    using 9 by simp
  then show ?thesis ..
qed

lemma map_of_cache_all:
  "map_of (cache_all key val xs m) = map_of m ++ map_of (rev (map (\<lambda>x. (key x, val x)) xs))"
proof (induction xs arbitrary: m)
  case Nil
  then show ?case by (simp add: cache_all_def)
next
  case (Cons x xs)
  have "map_of (cache_all key val (x # xs) m)
      = map_of (AList.update (key x) (val x) m) ++ map_of (rev (map (\<lambda>x. (key x, val x)) xs))"
    using Cons.IH [of "AList.update (key x) (val x) m"] by (simp add: cache_all_def)
  also have "\<dots> = map_of m ++ map_of (rev (map (\<lambda>x. (key x, val x)) (x # xs)))"
    by (simp add: AList.update_conv' map_add_def fun_eq_iff split: option.splits)
  finally show ?case .
qed

lemma distinct_cache_all:
  "distinct (map fst m) \<Longrightarrow> distinct (map fst (cache_all key val xs m))"
  unfolding cache_all_def
  by (induction xs arbitrary: m) (simp_all add: AList.distinct_update)

lemma dom_cache_all: "fst ` set (cache_all key val xs m) = key ` set xs \<union> fst ` set m"
  unfolding cache_all_def
  by (induction xs arbitrary: m) (auto simp: AList.dom_update)

lemma keys_cache_all_known:
  "key ` set xs \<subseteq> fst ` set m \<Longrightarrow> map fst (cache_all key val xs m) = map fst m"
  unfolding cache_all_def
proof (induction xs arbitrary: m)
  case Nil
  then show ?case by simp
next
  case (Cons x xs)
  have keys: "map fst (AList.update (key x) (val x) m) = map fst m"
    using Cons.prems by (simp add: AList.update_keys)
  then have "fst ` set (AList.update (key x) (val x) m) = fst ` set m"
    by (metis list.set_map)
  with Cons.prems have "key ` set xs \<subseteq> fst ` set (AList.update (key x) (val x) m)"
    by simp
  from Cons.IH [OF this] keys show ?case by simp
qed

lemma alist_rebuild:
  "distinct (map fst xs) \<Longrightarrow> map (\<lambda>k. (k, the (map_of xs k))) (map fst xs) = xs"
proof (induction xs)
  case Nil
  then show ?case by simp
next
  case (Cons x xs)
  obtain k v where x: "x = (k, v)" by (cases x)
  from Cons.prems x have nin: "k \<notin> set (map fst xs)" and d: "distinct (map fst xs)"
    by simp_all
  have "map (\<lambda>k'. (k', the (map_of (x # xs) k'))) (map fst xs)
      = map (\<lambda>k'. (k', the (map_of xs k'))) (map fst xs)"
  proof (rule map_cong [OF refl])
    fix k' assume "k' \<in> set (map fst xs)"
    with nin have "k' \<noteq> k" by blast
    then show "(k', the (map_of (x # xs) k')) = (k', the (map_of xs k'))"
      by (simp add: x)
  qed
  also have "\<dots> = xs" using d by (rule Cons.IH)
  finally show ?case by (simp add: x)
qed

lemma alist_eqI:
  assumes "distinct (map fst xs)" "map fst xs = map fst ys" "map_of xs = map_of ys"
  shows "xs = ys"
proof -
  have "distinct (map fst ys)" using assms(1,2) by simp
  then have "ys = map (\<lambda>k. (k, the (map_of ys k))) (map fst ys)"
    by (simp only: alist_rebuild)
  also have "\<dots> = map (\<lambda>k. (k, the (map_of xs k))) (map fst xs)"
    by (simp only: assms(2,3))
  also have "\<dots> = xs" using assms(1) by (rule alist_rebuild)
  finally show ?thesis by simp
qed

lemma cache_all_again:
  assumes "distinct (map fst m)"
  shows "cache_all key val xs (cache_all key val xs m) = cache_all key val xs m"
proof (rule alist_eqI)
  show "distinct (map fst (cache_all key val xs (cache_all key val xs m)))"
    using assms by (intro distinct_cache_all)
  show "map fst (cache_all key val xs (cache_all key val xs m)) = map fst (cache_all key val xs m)"
    by (rule keys_cache_all_known) (simp add: dom_cache_all)
  show "map_of (cache_all key val xs (cache_all key val xs m)) = map_of (cache_all key val xs m)"
    by (simp add: map_of_cache_all map_add_def fun_eq_iff split: option.splits)
qed

lemma process_areas_eq:
  "process_areas env s =
     (cache_all i_uuid (\<lambda>a. a) (get_areas (things env)) (area_map s),
      s\<lparr>trace := trace s @ [Get_areas],
        area_map := cache_all i_uuid (\<lambda>a. a) (get_areas (things env)) (area_map s)\<rparr>)"
  by (simp add: process_areas_def called_def cache_all_def Let_def)

lemma process_projects_eq:
  "process_projects env s =
     (cache_all i_uuid (\<lambda>a. a) (get_projects (things env)) (project_map s),
      s\<lparr>trace := trace s @ [Get_projects],
        project_map := cache_all i_uuid (\<lambda>a. a) (get_projects (things env)) (project_map s)\<rparr>)"
  by (simp add: process_projects_def called_def cache_all_def Let_def)

lemma process_tags_eq:
  "process_tags env s =
     (cache_all i_uuid tag_title (get_tags (things env)) (tag_map s),
      s\<lparr>trace := trace s @ [Get_tags],
        tag_map := cache_all i_uuid tag_title (get_tags (things env)) (tag_map s)\<rparr>)"
  by (simp add: process_tags_def called_def cache_all_def Let_def tag_title_def [abs_def])

lemma cache_all_snoc:
  "cache_all key val (xs @ [x]) m = AList.update (key x) (val x) (cache_all key val xs m)"
  by (simp add: cache_all_def)

lemma map_of_cache_all_stored: "map_of (cache_all key val xs m) k = stored key val xs m k"
proof (induction xs rule: rev_induct)
  case Nil
  then show ?case by (simp add: cache_all_def stored_def)
next
  case (snoc x xs)
  show ?case
  proof (cases "key x = k")
    case True
    then have "filter (\<lambda>y. key y = k) (xs @ [x]) = filter (\<lambda>y. key y = k) xs @ [x]"
      by simp
    moreover have "(case ys @ [x] of [] \<Rightarrow> a | z # zs \<Rightarrow> Some (val (last (z # zs)))) = Some (val x)"
      for ys a by (cases ys) simp_all
    ultimately have "stored key val (xs @ [x]) m k = Some (val x)"
      unfolding stored_def by (simp only:)
    then show ?thesis
      using True by (simp add: cache_all_snoc AList.update_conv')
  next
    case False
    then have "stored key val (xs @ [x]) m k = stored key val xs m k"
      by (simp add: stored_def)
    then show ?thesis
      using False snoc.IH by (simp add: cache_all_snoc AList.update_conv')
  qed
qed

lemma creations_append: "creations (a @ b) = creations a @ creations b"
  by (simp add: creations_def List.map_filter_def)

lemma creations_snoc:
  "creations (tr @ [c]) = (case created_params c of None \<Rightarrow> creations tr | Some p \<Rightarrow> creations tr @ [p])"
  by (simp add: creations_def List.map_filter_def split: option.splits)

lemma creations_called_other:
  "created_params c = None \<Longrightarrow> creations (trace (called c s)) = creations (trace s)"
  by (simp add: called_def creations_append) (simp add: creations_def)

lemma export_batch_eq:
  "export_batch env cd dc batch created s =
     (case run_llm env (map fst cd) (batch_prompt_of batch) of
        Inl e \<Rightarrow> (Inl e, called (Run_llm (map fst cd) (batch_prompt_of batch)) s)
      | Inr out \<Rightarrow>
          (Inl NameError,
           (called (Run_llm (map fst cd) (batch_prompt_of batch)) s)
             \<lparr>log := log s @ map Could_not_parse (filter (unparsed_index (python env)) (reply_lines (python env) out))\<rparr>))"
  by (simp add: export_batch_def Let_def llm_tagging_result_def parse_calendar_assignments_def
      for_each_parse_calendar_line reply_lines_def called_def split: sum.splits)

lemma export_batch_raises:
  "\<exists>e s'. export_batch env cd dc batch created s = (Inl e, s')
     \<and> creations (trace s') = creations (trace s)"
proof (cases "run_llm env (map fst cd) (batch_prompt_of batch)")
  case (Inl e)
  then show ?thesis
    by (simp add: export_batch_eq creations_called_other)
next
  case (Inr out)
  have "creations (trace ((called (Run_llm (map fst cd) (batch_prompt_of batch)) s)
      \<lparr>log := log s @ map Could_not_parse (filter (unparsed_index (python env)) (reply_lines (python env) out))\<rparr>))
      = creations (trace s)"
    using creations_called_other [of "Run_llm (map fst cd) (batch_prompt_of batch)" s]
    by (simp add: called_def)
  with Inr show ?thesis
    by (simp add: export_batch_eq)
qed

lemma batches_Nil: "batches [] = []"
  by simp

lemma batches_Cons: "batches (x # xs) = take batch_size (x # xs) # batches (drop batch_size (x # xs))"
  by (subst batches.simps) simp

lemma for_each_batches_raises:
  assumes "todos \<noteq> []"
  shows "\<exists>e s'. for_each (export_batch env cd dc) (batches todos) [] s = (Inl e, s')
     \<and> creations (trace s') = creations (trace s)"
proof -
  from assms obtain x xs where todos: "todos = x # xs" by (cases todos) auto
  obtain e s' where "export_batch env cd dc (take batch_size todos) [] s = (Inl e, s')"
      and "creations (trace s') = creations (trace s)"
    using export_batch_raises by blast
  then show ?thesis
    unfolding todos batches_Cons by (simp del: batches.simps)
qed

lemma get_default_calendar_cached_creations:
  "creations (trace (snd (get_default_calendar_cached env s))) = creations (trace s)"
  by (auto simp: get_default_calendar_cached_def called_def creations_snoc
      split: option.splits sum.splits)

lemma export_todos_creates_nothing:
  "creations (trace (snd (export_todos env todos_list s))) = creations (trace s)"
proof -
  define todos where "todos = (case todos_list of None \<Rightarrow> get_todos (things env) | Some l \<Rightarrow> l)"
  define s0 where "s0 = (case todos_list of None \<Rightarrow> called Get_todos s | Some l \<Rightarrow> s)"
  have s0: "creations (trace s0) = creations (trace s)"
    by (simp add: s0_def called_def creations_snoc split: option.splits)
  obtain r s1 where g: "get_default_calendar_cached env s0 = (r, s1)"
    by (cases "get_default_calendar_cached env s0")
  have s1: "creations (trace s1) = creations (trace s)"
    using get_default_calendar_cached_creations [of env s0] g s0 by simp
  have e: "export_todos env todos_list s =
      (case r of
         Inl e \<Rightarrow> (Inl e, s1)
       | Inr default_cal \<Rightarrow>
           (case list_calendars env of
              Inl e \<Rightarrow> (Inl e, called List_calendars s1)
            | Inr calendars \<Rightarrow>
                for_each (export_batch env (calendar_dict_of (python env) calendars) default_cal)
                  (batches todos) [] (called List_calendars s1)))"
    by (simp add: export_todos_def Let_def todos_def [symmetric] s0_def [symmetric] g
        split: sum.splits del: batches.simps)
  have s2: "creations (trace (called List_calendars s1)) = creations (trace s)"
    using s1 by (simp add: called_def creations_snoc)
  show ?thesis
  proof (cases r)
    case (Inl x)
    with e s1 show ?thesis by simp
  next
    case (Inr dc)
    show ?thesis
    proof (cases "list_calendars env")
      case (Inl x)
      with e Inr s2 show ?thesis by simp
    next
      case cals: (Inr calendars)
      show ?thesis
      proof (cases "todos = []")
        case True
        with e Inr cals s2 show ?thesis by (simp add: batches_Nil del: batches.simps)
      next
        case False
        from for_each_batches_raises [OF False, of env "calendar_dict_of (python env) calendars" dc
            "called List_calendars s1"]
        show ?thesis using e Inr cals s2 by (auto simp del: batches.simps)
      qed
    qed
  qed
qed

lemma fst_for_each_batches:
  assumes "todos \<noteq> []"
  shows "fst (for_each (export_batch env cd dc) (batches todos) [] s) =
     (case run_llm env (map fst cd) (batch_prompt_of (take batch_size todos)) of
        Inl e \<Rightarrow> Inl e
      | Inr out \<Rightarrow> Inl NameError)"
proof -
  from assms obtain x xs where todos: "todos = x # xs" by (cases todos) auto
  show ?thesis
    unfolding todos batches_Cons
    by (simp add: export_batch_eq split: sum.splits del: batches.simps)
qed

lemma fst_export_todos:
  assumes "todos = (case todos_list of None \<Rightarrow> get_todos (things env) | Some l \<Rightarrow> l)"
    and "s0 = (case todos_list of None \<Rightarrow> called Get_todos s | Some l \<Rightarrow> s)"
  shows "fst (export_todos env todos_list s) =
     (case fst (get_default_calendar_cached env s0) of
        Inl e \<Rightarrow> Inl e
      | Inr default_cal \<Rightarrow>
          (case list_calendars env of
             Inl e \<Rightarrow> Inl e
           | Inr calendars \<Rightarrow>
               fst (for_each (export_batch env (calendar_dict_of (python env) calendars) default_cal)
                  (batches todos) []
                  (called List_calendars (snd (get_default_calendar_cached env s0))))))"
  unfolding assms
  by (simp add: export_todos_def Let_def split: sum.splits prod.splits del: batches.simps)

lemma fst_get_default_calendar_cached:
  "fst (get_default_calendar_cached env s) =
     (case default_calendar s of Some c \<Rightarrow> Inr c | None \<Rightarrow> get_default_calendar env)"
  by (simp add: get_default_calendar_cached_def split: option.splits sum.splits)

lemma default_calendar_called [simp]: "default_calendar (called c s) = default_calendar s"
  by (simp add: called_def)

section \<open>The claims\<close>

text \<open>
  Claim C7. \<open>parse_things_date\<close> never raises on an optional text: it always returns.
  \<open>None\<close> and the empty text give no timestamp. Any other text is handed to
  \<open>fromisoformat\<close> with each Z replaced by \<open>+00:00\<close>, and the result is the timestamp
  \<open>fromisoformat\<close> returns, or no timestamp when it raises ValueError. So a text
  without Z reads as \<open>fromisoformat\<close> reads it, and the same text with a final Z as
  \<open>fromisoformat\<close> reads it with the offset \<open>+00:00\<close> of UTC.
\<close>

theorem parse_things_date_total:
  "(\<exists>r. parse_things_date py date_str = Inr r)
   \<and> parse_things_date py None = Inr None
   \<and> parse_things_date py (Some []) = Inr None
   \<and> (s \<noteq> [] \<longrightarrow> parse_things_date py (Some s) = Inr (fromisoformat py (replace_Z s)))
   \<and> (s \<noteq> [] \<and> CHR ''Z'' \<notin> set s \<longrightarrow>
         parse_things_date py (Some s) = Inr (fromisoformat py s)
       \<and> parse_things_date py (Some (s @ ''Z'')) = Inr (fromisoformat py (s @ ''+00:00'')))"
proof -
  have any: "parse_things_date py (Some x) = Inr (fromisoformat py (replace_Z x))" if "x \<noteq> []" for x
    using that by (simp add: parse_things_date_def split: option.splits)
  have no_Z: "replace_Z x = x" if "CHR ''Z'' \<notin> set x" for x
    using that by (induction x) (auto simp: replace_Z_def)
  have with_Z: "replace_Z (x @ ''Z'') = x @ ''+00:00''" if "CHR ''Z'' \<notin> set x" for x
    using no_Z [OF that] by (simp add: replace_Z_def)
  have "parse_things_date py None = Inr None" "parse_things_date py (Some []) = Inr None"
    by (simp_all add: parse_things_date_def)
  then show ?thesis
    using parse_things_date_returns [of py date_str] any [of s] any [of "s @ ''Z''"]
      no_Z [of s] with_Z [of s]
    by auto
qed

theorem parse_things_date_total_witness:
  "parse_things_date sample_python (Some ''2023-10-15T14:30:00Z'')
     = Inr (Some (test_timestamp\<lparr>dt_utcoffset := Some 0\<rparr>))
   \<and> parse_things_date sample_python (Some ''2023-10-15T14:30:00'') = Inr (Some test_timestamp)
   \<and> parse_things_date sample_python (Some ''2023-10-15'')
     = Inr (Some (test_timestamp\<lparr>dt_hour := 0, dt_minute := 0\<rparr>))
   \<and> parse_things_date sample_python (Some ''not a date'') = Inr None
   \<and> parse_things_date sample_python None = Inr None"
proof -
  have 1: "fromisoformat sample_python ''2023-10-15T14:30:00+00:00''
      = Some (test_timestamp\<lparr>dt_utcoffset := Some 0\<rparr>)"
    "fromisoformat sample_python ''2023-10-15T14:30:00'' = Some test_timestamp"
    "fromisoformat sample_python ''2023-10-15'' = Some (test_timestamp\<lparr>dt_hour := 0, dt_minute := 0\<rparr>)"
    "fromisoformat sample_python ''not a date'' = None"
    by (simp_all add: sample_python_def sample_fromisoformat_def)
  have 2: "replace_Z ''2023-10-15T14:30:00'' = ''2023-10-15T14:30:00''"
    "replace_Z ''2023-10-15'' = ''2023-10-15''" "replace_Z ''not a date'' = ''not a date''"
    by (simp_all add: replace_Z_def)
  show ?thesis
    using parse_things_date_total [of sample_python None "''2023-10-15T14:30:00''"]
      parse_things_date_total [of sample_python None "''2023-10-15''"]
      parse_things_date_total [of sample_python None "''not a date''"]
    by (simp add: 1 2)
qed

text \<open>
  Claim C6. \<open>get_reminder_notes_from_todo\<close> never raises, and its result is \<open>notes_text\<close>:
  the sections that are present, in the order original notes, status, start, deadline
  (the date alone), checklist, a blank line after each, then the footer. The footer
  always ends the result, and is the whole result when no section is present. The notes,
  start and checklist sections are present exactly when the field is present and not
  empty, the status section exactly for a completed or canceled to-do, the deadline
  section exactly when the deadline is present, not empty, and parses.
\<close>

theorem get_reminder_notes_from_todo_sections:
  "get_reminder_notes_from_todo py t = Inr (notes_text py t)
   \<and> (\<exists>pre. notes_text py t = pre @ notes_footer t)
   \<and> (notes_section t = None \<and> status_section t = None \<and> start_section t = None
        \<and> deadline_section py t = None \<and> checklist_section t = None
       \<longrightarrow> notes_text py t = notes_footer t)
   \<and> (notes_section t \<noteq> None \<longleftrightarrow> (\<exists>n. t_notes t = Some n \<and> n \<noteq> []))
   \<and> (status_section t \<noteq> None \<longleftrightarrow> t_status t = Some ''completed'' \<or> t_status t = Some ''canceled'')
   \<and> (start_section t \<noteq> None \<longleftrightarrow> (\<exists>st. t_start t = Some st \<and> st \<noteq> []))
   \<and> (deadline_section py t \<noteq> None \<longleftrightarrow>
         (\<exists>s d. t_deadline t = Some s \<and> s \<noteq> [] \<and> parse_things_date py (Some s) = Inr (Some d)))
   \<and> (checklist_section t \<noteq> None \<longleftrightarrow> (\<exists>items. t_checklist t = Some items \<and> items \<noteq> []))"
proof -
  have sections: "(notes_section t \<noteq> None \<longleftrightarrow> (\<exists>n. t_notes t = Some n \<and> n \<noteq> []))
     \<and> (status_section t \<noteq> None \<longleftrightarrow> t_status t = Some ''completed'' \<or> t_status t = Some ''canceled'')
     \<and> (start_section t \<noteq> None \<longleftrightarrow> (\<exists>st. t_start t = Some st \<and> st \<noteq> []))
     \<and> (checklist_section t \<noteq> None \<longleftrightarrow> (\<exists>items. t_checklist t = Some items \<and> items \<noteq> []))"
    by (auto simp: notes_section_def status_section_def start_section_def checklist_section_def
        split: option.splits)
  have deadline: "deadline_section py t \<noteq> None \<longleftrightarrow>
      (\<exists>s d. t_deadline t = Some s \<and> s \<noteq> [] \<and> parse_things_date py (Some s) = Inr (Some d))"
    by (auto simp: deadline_section_def deadline_date_def split: option.splits sum.splits)
  have "\<exists>pre. notes_text py t = pre @ notes_footer t"
    unfolding notes_text_def by blast
  moreover have "notes_text py t = notes_footer t"
    if "notes_section t = None \<and> status_section t = None \<and> start_section t = None
        \<and> deadline_section py t = None \<and> checklist_section t = None"
    using that by (simp add: notes_text_def present_def List.map_filter_simps)
  ultimately show ?thesis
    using get_reminder_notes_render [of py t] sections deadline by blast
qed

theorem get_reminder_notes_from_todo_sections_witness:
  "get_reminder_notes_from_todo sample_python bare_todo = Inr ''Imported from Things - UUID: todo3''
   \<and> get_reminder_notes_from_todo sample_python full_todo =
       Inr (''Todo with checklist'' @ [CHR 0x0A, CHR 0x0A] @
            ''Status: '' @ [CHR 0xE2, CHR 0x9C, CHR 0x93] @ '' Completed'' @ [CHR 0x0A, CHR 0x0A] @
            ''Start: Anytime'' @ [CHR 0x0A, CHR 0x0A] @
            ''Deadline: 2023-10-15'' @ [CHR 0x0A, CHR 0x0A] @
            ''Checklist:'' @ [CHR 0x0A] @
            [CHR 0xE2, CHR 0x9C, CHR 0x93] @ '' Item 1'' @ [CHR 0x0A] @
            [CHR 0xE2, CHR 0x98, CHR 0x90] @ '' Item 2'' @ [CHR 0x0A] @
            [CHR 0xE2, CHR 0x98, CHR 0x90] @ '' Item 3'' @ [CHR 0x0A, CHR 0x0A] @
            ''Imported from Things - UUID: todo2'')"
proof -
  have 1: "notes_section bare_todo = None \<and> status_section bare_todo = None
      \<and> start_section bare_todo = None \<and> deadline_section sample_python bare_todo = None
      \<and> checklist_section bare_todo = None"
    by (simp add: spec_eval bare_todo_def empty_todo_def)
  have 2: "notes_footer bare_todo = ''Imported from Things - UUID: todo3''"
    by (simp add: notes_footer_def bare_todo_def empty_todo_def)
  have 3: "notes_text sample_python full_todo =
            ''Todo with checklist'' @ [CHR 0x0A, CHR 0x0A] @
            ''Status: '' @ [CHR 0xE2, CHR 0x9C, CHR 0x93] @ '' Completed'' @ [CHR 0x0A, CHR 0x0A] @
            ''Start: Anytime'' @ [CHR 0x0A, CHR 0x0A] @
            ''Deadline: 2023-10-15'' @ [CHR 0x0A, CHR 0x0A] @
            ''Checklist:'' @ [CHR 0x0A] @
            [CHR 0xE2, CHR 0x9C, CHR 0x93] @ '' Item 1'' @ [CHR 0x0A] @
            [CHR 0xE2, CHR 0x98, CHR 0x90] @ '' Item 2'' @ [CHR 0x0A] @
            [CHR 0xE2, CHR 0x98, CHR 0x90] @ '' Item 3'' @ [CHR 0x0A, CHR 0x0A] @
            ''Imported from Things - UUID: todo2''"
    by (simp add: spec_eval sample_eval full_todo_def empty_todo_def)
  show ?thesis
    using get_reminder_notes_from_todo_sections [of sample_python bare_todo]
      get_reminder_notes_from_todo_sections [of sample_python full_todo] 1 2 3
    by simp
qed

text \<open>
  Claim C5 fails as stated: a to-do whose start is Anytime and whose deadline is the text
  \<open>not a date\<close> has a deadline, but gets neither an early reminder nor the flag.
\<close>

theorem early_reminder_counterexample:
  "truthy (t_deadline unparseable_todo) \<and> t_start unparseable_todo = Some ''Anytime''
   \<and> map_sum id p_early_reminder_date
       (get_reminder_params_from_todo sample_python unparseable_todo None) = Inr None
   \<and> map_sum id p_flagged
       (get_reminder_params_from_todo sample_python unparseable_todo None) = Inr None"
  by (simp add: get_reminder_params_char deadline_date_def unparseable_todo_def empty_todo_def
      truthy_def sample_eval base_params_def)

text \<open>
  Claim C5, amended. When \<open>get_reminder_params_from_todo\<close> returns, the due date is the
  parsed deadline if the deadline is present and not empty, else the parsed \<open>when\<close> date
  if that is, else absent; the priority is \<open>map_priority\<close> of the to-do's priority, 0 when
  it has none. When the start is exactly Anytime and the deadline is present and parses,
  the parameters carry the due date minus one day as the early reminder and the flag;
  in every other case, also that of a deadline that does not parse, they carry neither.
  The function returns unless that subtraction overflows (a deadline on the first day
  of year 1 of an Anytime to-do), where OverflowError leaves it.
\<close>

theorem get_reminder_params_from_todo_dates:
  "(get_reminder_params_from_todo py t c = Inr p \<longrightarrow>
       p_due_date p = due_date_of py t
     \<and> p_priority p = map_priority (case t_priority t of None \<Rightarrow> 0 | Some n \<Rightarrow> n)
     \<and> (t_start t = Some ''Anytime'' \<and> deadline_date py t = Some d \<longrightarrow>
           p_due_date p = Some d
         \<and> (\<exists>e. minus_one_day d = Inr e \<and> p_early_reminder_date p = Some e)
         \<and> p_flagged p = Some True)
     \<and> (t_start t \<noteq> Some ''Anytime'' \<or> deadline_date py t = None \<longrightarrow>
           p_early_reminder_date p = None \<and> p_flagged p = None))
   \<and> ((\<exists>q. get_reminder_params_from_todo py t c = Inr q) \<longleftrightarrow>
        \<not> (t_start t = Some ''Anytime''
           \<and> (\<exists>d'. deadline_date py t = Some d' \<and> minus_one_day d' = Inl OverflowError)))"
proof -
  have overflow: "e = OverflowError" if "minus_one_day x = Inl e" for x e
    using that by (auto simp: minus_one_day_def split: if_splits)
  show ?thesis
    by (auto simp: get_reminder_params_char base_params_def due_date_of_deadline
        split: option.splits sum.splits if_splits dest: overflow)
qed

theorem get_reminder_params_from_todo_dates_witness:
  "get_reminder_params_from_todo sample_python anytime_todo (Some ''cal123'') = Inr anytime_params
   \<and> p_due_date anytime_params = Some anytime_due
   \<and> p_priority anytime_params = HIGH
   \<and> minus_one_day anytime_due = Inr (anytime_due\<lparr>dt_day := 14\<rparr>)
   \<and> p_early_reminder_date anytime_params = Some (anytime_due\<lparr>dt_day := 14\<rparr>)
   \<and> p_flagged anytime_params = Some True"
proof -
  have 1: "t_start anytime_todo = Some ''Anytime''"
    by (simp add: anytime_todo_def empty_todo_def)
  have 2: "map_priority (case t_priority anytime_todo of None \<Rightarrow> 0 | Some n \<Rightarrow> n) = HIGH"
    by (simp add: anytime_todo_def empty_todo_def map_priority_def)
  have 3: "minus_one_day anytime_due = Inr (anytime_due\<lparr>dt_day := 14\<rparr>)"
    by (simp add: minus_one_day_def anytime_due_def test_timestamp_def)
  show ?thesis
    using get_reminder_params_from_todo_dates
        [of sample_python anytime_todo "Some ''cal123''" anytime_params anytime_due]
      anytime_returns anytime_deadline 1 2 3
    by auto
qed

text \<open>
  Claim C10 fails as stated: a to-do whose title is the empty text keeps it; the
  placeholder replaces only a title that is missing.
\<close>

theorem empty_title_counterexample:
  "t_title untitled_todo = Some []
   \<and> map_sum id p_title (get_reminder_params_from_todo sample_python untitled_todo None) = Inr []"
  by (simp add: get_reminder_params_char untitled_todo_def empty_todo_def base_params_def)

text \<open>
  Claim C10, amended. The title of the parameters is the to-do's title when the to-do
  has one and the placeholder \<open>Untitled Task\<close> when it has none; so it is empty exactly
  when the to-do's own title is the empty text.
\<close>

theorem get_reminder_params_from_todo_title:
  "get_reminder_params_from_todo py t c = Inr p \<longrightarrow>
     p_title p = (case t_title t of None \<Rightarrow> ''Untitled Task'' | Some s \<Rightarrow> s)
   \<and> (t_title t = None \<longrightarrow> p_title p = ''Untitled Task'')
   \<and> (p_title p \<noteq> [] \<longleftrightarrow> t_title t \<noteq> Some [])"
  by (auto simp: get_reminder_params_char base_params_def
      split: option.splits sum.splits if_splits)

theorem get_reminder_params_from_todo_title_witness:
  "get_reminder_params_from_todo sample_python bare_todo None = Inr bare_params
   \<and> t_title bare_todo = None
   \<and> p_title bare_params = ''Untitled Task''"
proof -
  have 1: "get_reminder_params_from_todo sample_python bare_todo None = Inr bare_params"
    by (simp add: get_reminder_params_char bare_params_def bare_todo_def empty_todo_def)
  have 2: "t_title bare_todo = None"
    by (simp add: bare_todo_def empty_todo_def)
  show ?thesis
    using get_reminder_params_from_todo_title [of sample_python bare_todo None bare_params] 1 2
    by simp
qed

text \<open>
  Claim C4 fails as stated: a line without a colon, and a line that names a calendar
  which does not exist, are skipped without any warning.
\<close>

theorem silent_skip_counterexample:
  "parse_calendar_assignments sample_python sample_calendar_dict ''badline'' new_exporter
       = (Inr [], new_exporter)
   \<and> parse_calendar_assignments sample_python sample_calendar_dict ''2: nonexistent'' new_exporter
       = (Inr [], new_exporter)
   \<and> log new_exporter = []"
  by (simp add: parse_eval text_eval)

text \<open>
  Claim C4, amended. Parsing the classifier's reply never raises. A line gives an
  assignment exactly when it has a colon, the text before the first colon reads as an
  integer, and the trimmed, lower-cased text after it is a key of \<open>calendar_dict\<close>. The
  result holds the assignments of these lines, a later line replacing an earlier one
  with the same index, and no other index. A warning is logged exactly for the lines
  that have a colon and whose index does not read as an integer; every other rejected
  line is skipped without one.
\<close>

theorem parse_calendar_assignments_accepted:
  "parse_calendar_assignments py cd stdout s =
     (Inr (assign_all (accepted py cd (reply_lines py stdout)) []),
      s\<lparr>log := log s @ map Could_not_parse (filter (unparsed_index py) (reply_lines py stdout))\<rparr>)
   \<and> map_of (assign_all (accepted py cd lines) []) = map_of (rev (accepted py cd lines))
   \<and> (i \<in> fst ` set (assign_all (accepted py cd lines) []) \<longleftrightarrow>
        (\<exists>line \<in> set lines. \<exists>n. line_assignment py cd line = Some (i, n)))
   \<and> (line_assignment py cd line = Some (i, n) \<longleftrightarrow>
        CHR '':'' \<in> set line \<and> py_int py (py_strip py (before_colon line)) = Some i
        \<and> n = py_lower py (py_strip py (after_colon line)) \<and> n \<in> fst ` set cd)"
proof -
  have keys: "i \<in> fst ` set (assign_all (accepted py cd lines) []) \<longleftrightarrow>
      (\<exists>line \<in> set lines. \<exists>n. line_assignment py cd line = Some (i, n))"
    by (force simp: keys_assign_all accepted_def List.map_filter_def image_iff)
  have line: "line_assignment py cd line = Some (i, n) \<longleftrightarrow>
      CHR '':'' \<in> set line \<and> py_int py (py_strip py (before_colon line)) = Some i
      \<and> n = py_lower py (py_strip py (after_colon line)) \<and> n \<in> fst ` set cd"
    by (auto simp: line_assignment_def split: option.splits if_splits)
  show ?thesis
    using keys line
    by (simp add: parse_calendar_assignments_def for_each_parse_calendar_line reply_lines_def
        map_of_assign_all)
qed

theorem parse_calendar_assignments_accepted_witness:
  "parse_calendar_assignments sample_python sample_calendar_dict sample_reply new_exporter =
     (Inr [(0, ''personal'')], new_exporter\<lparr>log := [Could_not_parse ''x: work'']\<rparr>)
   \<and> line_assignment sample_python sample_calendar_dict ''0: personal'' = Some (0, ''personal'')"
proof -
  have 1: "reply_lines sample_python sample_reply
      = [''0: personal'', ''badline'', ''2: nonexistent'', ''x: work'']"
    by (simp add: reply_lines_def sample_reply_def text_eval)
  have 2: "accepted sample_python sample_calendar_dict
      [''0: personal'', ''badline'', ''2: nonexistent'', ''x: work''] = [(0, ''personal'')]"
    by (simp add: accepted_def List.map_filter_simps line_assignment_def sample_calendar_dict_def
        text_eval)
  have 3: "filter (unparsed_index sample_python)
      [''0: personal'', ''badline'', ''2: nonexistent'', ''x: work''] = [''x: work'']"
    by (simp add: unparsed_index_def text_eval)
  have 4: "line_assignment sample_python sample_calendar_dict ''0: personal'' = Some (0, ''personal'')"
    by (simp add: line_assignment_def sample_calendar_dict_def text_eval)
  have "parse_calendar_assignments sample_python sample_calendar_dict sample_reply new_exporter =
      (Inr (assign_all (accepted sample_python sample_calendar_dict
              (reply_lines sample_python sample_reply)) []),
       new_exporter\<lparr>log := log new_exporter @
          map Could_not_parse (filter (unparsed_index sample_python)
             (reply_lines sample_python sample_reply))\<rparr>)"
    using parse_calendar_assignments_accepted
        [of sample_python sample_calendar_dict sample_reply new_exporter "[]" 0 "''0: personal''"
            "''personal''"]
    by (rule conjunct1)
  then show ?thesis
    unfolding 1 2 3 using 4 by (simp add: assign_all_def new_exporter_def)
qed

text \<open>
  Claim C8. Whatever the options and whatever the views of Things return, the to-dos that
  \<open>export_with_options\<close> selects and hands to \<open>export_todos\<close> have pairwise different
  identifiers, each present and not empty; a to-do returned by several enabled views is
  selected once.
\<close>

theorem select_todos_distinct:
  "distinct (map t_uuid (fst (select_todos env opts s)))
   \<and> list_all (\<lambda>t. truthy (t_uuid t)) (fst (select_todos env opts s))
   \<and> export_with_options env opts s =
       counts_of (fst (load_metadata env s))
         (export_todos env (Some (fst (select_todos env opts (snd (load_metadata env s)))))
            (snd (select_todos env opts (snd (load_metadata env s)))))"
proof -
  obtain U where "queued (fst (select_todos env opts s), U)"
    using queued_select_todos by blast
  then show ?thesis
    by (auto simp: queued_def list_all_iff truthy_def export_with_options_def Let_def
        split: option.splits)
qed

theorem select_todos_distinct_witness:
  "get_today_tasks (things working_env) = [todo_a]
   \<and> get_inbox_tasks (things working_env) = [todo_a, todo_b]
   \<and> fst (select_todos working_env (no_options\<lparr>only_today := True, only_inbox := True\<rparr>) new_exporter)
       = [todo_a, todo_b]
   \<and> distinct (map t_uuid [todo_a, todo_b])"
proof -
  have 1: "fst (select_todos working_env (no_options\<lparr>only_today := True, only_inbox := True\<rparr>)
      new_exporter) = [todo_a, todo_b]"
    by (simp add: select_todos_def add_view_def add_todos_def add_todo_def working_env_def
        empty_things_def no_options_def todo_a_def todo_b_def empty_todo_def truthy_def Let_def)
  show ?thesis
    using select_todos_distinct
        [of working_env "no_options\<lparr>only_today := True, only_inbox := True\<rparr>" new_exporter]
    unfolding 1 by (simp add: working_env_def empty_things_def)
qed

text \<open>
  Claim C9 fails as stated: a second call of \<open>process_areas\<close> asks Things for the areas
  again; after two calls the areas have been fetched twice.
\<close>

theorem second_fetch_counterexample:
  "count_list (trace (snd (process_areas metadata_env new_exporter))) Get_areas = 1
   \<and> count_list (trace (snd (process_areas metadata_env
         (snd (process_areas metadata_env new_exporter))))) Get_areas = 2"
  by (simp add: process_areas_eq new_exporter_def)

text \<open>
  Claim C9, amended. Every call of \<open>process_areas\<close>, \<open>process_projects\<close> and
  \<open>process_tags\<close> fetches from Things once more: nothing is skipped on a second call. The
  call stores what it fetched and returns the cache: under every key the returned map
  holds the last fetched entry with this identifier (for a tag its title, \<open>Unnamed Tag\<close>
  when it has none), and what the cache held before under a key that no fetched entry
  has. On a cache that holds each key once, as a dictionary does, a second call in the
  same run returns the very lookup map the first call returned, and the cache keeps each
  key once.
\<close>

theorem process_metadata_refetches:
  "count_list (trace (snd (process_areas env s))) Get_areas = Suc (count_list (trace s) Get_areas)
   \<and> count_list (trace (snd (process_projects env s))) Get_projects
       = Suc (count_list (trace s) Get_projects)
   \<and> count_list (trace (snd (process_tags env s))) Get_tags = Suc (count_list (trace s) Get_tags)
   \<and> fst (process_areas env s) = area_map (snd (process_areas env s))
   \<and> fst (process_projects env s) = project_map (snd (process_projects env s))
   \<and> fst (process_tags env s) = tag_map (snd (process_tags env s))
   \<and> map_of (fst (process_areas env s)) k
       = stored i_uuid (\<lambda>area. area) (get_areas (things env)) (area_map s) k
   \<and> map_of (fst (process_projects env s)) k
       = stored i_uuid (\<lambda>project. project) (get_projects (things env)) (project_map s) k
   \<and> map_of (fst (process_tags env s)) k
       = stored i_uuid tag_title (get_tags (things env)) (tag_map s) k
   \<and> (distinct (map fst (area_map s)) \<longrightarrow>
        fst (process_areas env (snd (process_areas env s))) = fst (process_areas env s)
        \<and> distinct (map fst (fst (process_areas env s))))
   \<and> (distinct (map fst (project_map s)) \<longrightarrow>
        fst (process_projects env (snd (process_projects env s))) = fst (process_projects env s)
        \<and> distinct (map fst (fst (process_projects env s))))
   \<and> (distinct (map fst (tag_map s)) \<longrightarrow>
        fst (process_tags env (snd (process_tags env s))) = fst (process_tags env s)
        \<and> distinct (map fst (fst (process_tags env s))))"
  by (simp add: process_areas_eq process_projects_eq process_tags_eq cache_all_again
      distinct_cache_all map_of_cache_all_stored)

theorem process_metadata_refetches_witness:
  "distinct (map fst (area_map new_exporter))
   \<and> get_areas (things metadata_env) = [area_home, area_office, area_house]
   \<and> fst (process_areas metadata_env new_exporter)
       = [(Some ''area1'', area_house), (Some ''area2'', area_office)]
   \<and> fst (process_areas metadata_env (snd (process_areas metadata_env new_exporter)))
       = [(Some ''area1'', area_house), (Some ''area2'', area_office)]
   \<and> stored i_uuid (\<lambda>area. area) [area_home, area_office, area_house] [] (Some ''area1'')
       = Some area_house
   \<and> fst (process_projects metadata_env new_exporter) = [(Some ''area2'', area_office)]
   \<and> fst (process_tags metadata_env new_exporter)
       = [(Some ''tag1'', ''urgent''), (Some ''tag2'', ''Unnamed Tag'')]
   \<and> stored i_uuid tag_title [tag_urgent, tag_nameless] [] (Some ''tag2'') = Some ''Unnamed Tag''
   \<and> count_list (trace (snd (process_areas metadata_env new_exporter))) Get_areas = 1"
proof -
  have 1: "distinct (map fst (area_map new_exporter))
      \<and> distinct (map fst (project_map new_exporter)) \<and> distinct (map fst (tag_map new_exporter))"
    by (simp add: new_exporter_def)
  have 2: "fst (process_areas metadata_env new_exporter)
      = [(Some ''area1'', area_house), (Some ''area2'', area_office)]"
    "fst (process_projects metadata_env new_exporter) = [(Some ''area2'', area_office)]"
    "fst (process_tags metadata_env new_exporter)
      = [(Some ''tag1'', ''urgent''), (Some ''tag2'', ''Unnamed Tag'')]"
    by (simp_all add: process_areas_def process_projects_def process_tags_def called_def Let_def
        metadata_env_def working_env_def empty_things_def new_exporter_def area_home_def
        area_office_def area_house_def tag_urgent_def tag_nameless_def)
  have 3: "count_list (trace new_exporter) Get_areas = 0"
    "area_map new_exporter = []" "tag_map new_exporter = []"
    by (simp_all add: new_exporter_def)
  have 4: "get_areas (things metadata_env) = [area_home, area_office, area_house]"
    "get_tags (things metadata_env) = [tag_urgent, tag_nameless]"
    by (simp_all add: metadata_env_def working_env_def empty_things_def)
  show ?thesis
    using process_metadata_refetches [of metadata_env new_exporter "Some ''area1''"]
      process_metadata_refetches [of metadata_env new_exporter "Some ''tag2''"] 1
    unfolding 2 3 4 by simp
qed

text \<open>
  Claim C2. \<open>export_todos\<close> never creates a reminder: the calls of \<open>create_reminder\<close> in
  the trace are those made before. On a list that is not empty it always raises; when
  the default calendar is cached or delivered, the calendars are listed and the
  classifier answers for the first batch, what it raises is the NameError of reading
  \<open>llm_tagging_result\<close>. On the empty list, with the same collaborators, it returns the
  empty list. The list is the argument, or what \<open>get_todos\<close> returns when there is none.
\<close>

theorem export_todos_name_error:
  "todos = (case todos_list of None \<Rightarrow> get_todos (things env) | Some l \<Rightarrow> l) \<longrightarrow>
     creations (trace (snd (export_todos env todos_list s))) = creations (trace s)
   \<and> (todos \<noteq> [] \<longrightarrow> (\<exists>e. fst (export_todos env todos_list s) = Inl e))
   \<and> ((default_calendar s = Some c \<or> get_default_calendar env = Inr c)
        \<and> list_calendars env = Inr cs \<longrightarrow>
         (todos = [] \<longrightarrow> fst (export_todos env todos_list s) = Inr [])
       \<and> (todos \<noteq> []
            \<and> run_llm env (map fst (calendar_dict_of (python env) cs)) (batch_prompt_of (take batch_size todos))
                = Inr out
           \<longrightarrow> fst (export_todos env todos_list s) = Inl NameError))"
proof (intro impI conjI)
  assume t: "todos = (case todos_list of None \<Rightarrow> get_todos (things env) | Some l \<Rightarrow> l)"
  show "creations (trace (snd (export_todos env todos_list s))) = creations (trace s)"
    by (rule export_todos_creates_nothing)
  show "\<exists>e. fst (export_todos env todos_list s) = Inl e" if "todos \<noteq> []"
    using that unfolding fst_export_todos [OF t refl]
    by (auto simp: fst_for_each_batches split: sum.splits simp del: batches.simps)
next
  assume t: "todos = (case todos_list of None \<Rightarrow> get_todos (things env) | Some l \<Rightarrow> l)"
    and c: "(default_calendar s = Some c \<or> get_default_calendar env = Inr c)
        \<and> list_calendars env = Inr cs"
  have d: "\<exists>dc. fst (get_default_calendar_cached env
      (case todos_list of None \<Rightarrow> called Get_todos s | Some l \<Rightarrow> s)) = Inr dc"
    using c by (auto simp: fst_get_default_calendar_cached split: option.splits)
  show "fst (export_todos env todos_list s) = Inr []" if "todos = []"
    using that d c unfolding fst_export_todos [OF t refl]
    by (auto simp: batches_Nil simp del: batches.simps)
  show "fst (export_todos env todos_list s) = Inl NameError"
    if "todos \<noteq> [] \<and> run_llm env (map fst (calendar_dict_of (python env) cs))
          (batch_prompt_of (take batch_size todos)) = Inr out"
    using that d c unfolding fst_export_todos [OF t refl]
    by (auto simp: fst_for_each_batches simp del: batches.simps)
qed

theorem export_todos_name_error_witness:
  "fst (export_todos working_env (Some [todo_a]) new_exporter) = Inl NameError
   \<and> fst (export_todos working_env (Some []) new_exporter) = Inr []
   \<and> creations (trace (snd (export_todos working_env (Some [todo_a]) new_exporter))) = []"
proof -
  have 1: "get_default_calendar working_env = Inr \<lparr>cal_name = ''Personal'', cal_id = ''id-p''\<rparr>"
    by (simp add: working_env_def sample_default_def)
  have 2: "list_calendars working_env = Inr [\<lparr>cal_name = ''Work'', cal_id = ''id-w''\<rparr>,
      \<lparr>cal_name = ''Personal'', cal_id = ''id-p''\<rparr>]"
    by (simp add: working_env_def sample_calendars_def)
  have 3: "run_llm working_env names prompt = Inr []" for names prompt
    by (simp add: working_env_def)
  have 4: "creations (trace new_exporter) = []"
    by (simp add: new_exporter_def creations_def)
  show ?thesis
    using export_todos_name_error [where todos = "[todo_a]" and todos_list = "Some [todo_a]"
        and env = working_env and s = new_exporter
        and c = "\<lparr>cal_name = ''Personal'', cal_id = ''id-p''\<rparr>"
        and cs = "[\<lparr>cal_name = ''Work'', cal_id = ''id-w''\<rparr>, \<lparr>cal_name = ''Personal'', cal_id = ''id-p''\<rparr>]"
        and out = "[]"]
      export_todos_name_error [where todos = "[]" and todos_list = "Some []"
        and env = working_env and s = new_exporter
        and c = "\<lparr>cal_name = ''Personal'', cal_id = ''id-p''\<rparr>"
        and cs = "[\<lparr>cal_name = ''Work'', cal_id = ''id-w''\<rparr>, \<lparr>cal_name = ''Personal'', cal_id = ''id-p''\<rparr>]"
        and out = "[]"]
      1 2 3 4
    by simp
qed

text \<open>
  Claim C1 at a list of two to-dos, with a reminders client that rejects the first and
  accepts the second: \<open>export_todos\<close> raises NameError before the loop that would create
  them; no reminder is created, no error is logged, nothing is returned.
\<close>

theorem export_todos_isolation_unreached:
  "create_reminder flaky_env [] (base_params sample_python todo_a None) = Inl (Failure ''rejected'')
   \<and> create_reminder flaky_env [] (base_params sample_python todo_b None) = Inr ''Write report''
   \<and> fst (export_todos flaky_env (Some [todo_a, todo_b]) new_exporter) = Inl NameError
   \<and> creations (trace (snd (export_todos flaky_env (Some [todo_a, todo_b]) new_exporter))) = []
   \<and> log (snd (export_todos flaky_env (Some [todo_a, todo_b]) new_exporter)) = []"
  by (simp add: export_todos_def get_default_calendar_cached_def export_batch_def batches_Cons
      batches_Nil batch_size_def parse_calendar_assignments_def parse_calendar_line_def
      llm_tagging_result_def text_eval flaky_env_def working_env_def new_exporter_def called_def
      sample_default_def sample_calendars_def calendar_dict_of_def
      creations_def base_params_def todo_a_def todo_b_def empty_todo_def
      del: batches.simps)

text \<open>
  Claim C3 at one to-do that the classifier leaves without an assignment (its reply is
  empty), with the calendars Work and Personal and Personal the default: \<open>export_todos\<close>
  raises NameError before the loop that would resolve a calendar, so no reminder is
  created, in the default calendar or in any other.
\<close>

theorem export_todos_no_default_calendar:
  "fst (get_default_calendar_cached working_env new_exporter) = Inr sample_default
   \<and> cal_id sample_default = ''id-p''
   \<and> calendar_dict_of sample_python sample_calendars = [(''work'', ''id-w''), (''personal'', ''id-p'')]
   \<and> run_llm working_env [''work'', ''personal''] (batch_prompt_of [todo_a]) = Inr []
   \<and> fst (parse_calendar_assignments sample_python
            (calendar_dict_of sample_python sample_calendars) [] new_exporter) = Inr []
   \<and> fst (export_todos working_env (Some [todo_a]) new_exporter) = Inl NameError
   \<and> map p_calendar_id
        (creations (trace (snd (export_todos working_env (Some [todo_a]) new_exporter)))) = []"
  by (simp add: export_todos_def get_default_calendar_cached_def export_batch_def batches_Cons
      batches_Nil batch_size_def parse_calendar_assignments_def parse_calendar_line_def
      llm_tagging_result_def text_eval working_env_def new_exporter_def called_def
      sample_default_def sample_calendars_def calendar_dict_of_def
      creations_def todo_a_def empty_todo_def
      del: batches.simps)

end
